theory Spec2Isabelle
  imports Complex_Main
begin

section \<open>The FSRS-6 scheduler of \<^verbatim>\<open>app/fsrs.py\<close> and its caller in \<^verbatim>\<open>app/routes.py\<close>\<close>

text \<open>
  Python floats are modelled as the reals: rounding, the range of a double (the range
  errors of \<^verbatim>\<open>math.exp\<close> and \<^verbatim>\<open>math.pow\<close>), infinities and NaN are outside the model. Python
  integers are \<^typ>\<open>int\<close>. A time stamp (\<^verbatim>\<open>datetime\<close>) is the real number of seconds since
  \<^verbatim>\<open>datetime.min\<close>, 0001-01-01 00:00:00, and a \<^verbatim>\<open>timedelta\<close> is a real number of seconds, both
  without the rounding to microseconds; their ranges are modelled, since leaving them raises
  \<^verbatim>\<open>OverflowError\<close>. Exceptions are values of \<open>py_error\<close>.
  A float literal with no fractional part, such as \<^verbatim>\<open>1.0\<close>, is written \<open>1\<close>; the type is
  \<^typ>\<open>real\<close> all the same.
\<close>

subsection \<open>Python primitives\<close>

datatype py_error = ValueError | IndexError | ZeroDivisionError | OverflowError | AttributeError

definition ebind :: "py_error + 'a \<Rightarrow> ('a \<Rightarrow> py_error + 'b) \<Rightarrow> py_error + 'b" where
  "ebind m f = (case m of Inl e \<Rightarrow> Inl e | Inr v \<Rightarrow> f v)"

text \<open>
  \<^verbatim>\<open>math.pow(x, y)\<close>: a negative base with a non-integral exponent and a zero base with a
  negative exponent raise \<^verbatim>\<open>ValueError\<close> (math domain error).
\<close>

definition py_pow :: "real \<Rightarrow> real \<Rightarrow> py_error + real" where
  "py_pow x y =
     (if x < 0 then
        (if y = of_int \<lfloor>y\<rfloor> then Inr (power_int x \<lfloor>y\<rfloor>) else Inl ValueError)
      else if x = 0 then
        (if y < 0 then Inl ValueError else if y = 0 then Inr 1 else Inr 0)
      else Inr (x powr y))"

text \<open>Float division \<^verbatim>\<open>x / y\<close>: a zero divisor raises \<^verbatim>\<open>ZeroDivisionError\<close>.\<close>

definition py_div :: "real \<Rightarrow> real \<Rightarrow> py_error + real" where
  "py_div x y = (if y = 0 then Inl ZeroDivisionError else Inr (x / y))"

text \<open>\<^verbatim>\<open>xs[k]\<close> for a constant index \<open>k \<ge> 0\<close>: out of range raises \<^verbatim>\<open>IndexError\<close>.\<close>

definition index :: "real list \<Rightarrow> nat \<Rightarrow> py_error + real" where
  "index xs k = (if k < length xs then Inr (xs ! k) else Inl IndexError)"

text \<open>\<^verbatim>\<open>d.get(key, default)\<close> on a dictionary whose key may be absent.\<close>

definition get :: "'a option \<Rightarrow> 'a \<Rightarrow> 'a" where
  "get v dflt = (case v of None \<Rightarrow> dflt | Some x \<Rightarrow> x)"

text \<open>
  \<^verbatim>\<open>timedelta(days=x)\<close>: the whole days of the normalised value are \<open>\<lfloor>x\<rfloor>\<close>, and a magnitude
  above 999999999 raises \<^verbatim>\<open>OverflowError\<close>.
\<close>

definition timedelta_days :: "real \<Rightarrow> py_error + real" where
  "timedelta_days x =
     (if \<lfloor>x\<rfloor> < - 999999999 \<or> 999999999 < \<lfloor>x\<rfloor> then Inl OverflowError else Inr (x * 86400))"

text \<open>
  \<^verbatim>\<open>datetime + timedelta\<close>: the sum must be a date of the years 1 to 9999, else
  \<^verbatim>\<open>OverflowError\<close> (date value out of range). \<open>datetime_max\<close> is the first instant of the year
  10000, which is 3652059 days after \<^verbatim>\<open>datetime.min\<close>.
\<close>

definition datetime_max :: real where
  "datetime_max = 3652059 * 86400"

definition datetime_add :: "real \<Rightarrow> real \<Rightarrow> py_error + real" where
  "datetime_add t delta =
     (if t + delta < 0 \<or> datetime_max \<le> t + delta then Inl OverflowError else Inr (t + delta))"

text \<open>
  The system clock: the stream of the values that successive calls of
  \<^verbatim>\<open>datetime.utcnow()\<close> return. A call returns the head and leaves the rest.
\<close>

type_synonym clock = "nat \<Rightarrow> real"

definition utcnow :: "clock \<Rightarrow> real \<times> clock" where
  "utcnow c = (c 0, \<lambda>n. c (Suc n))"

subsection \<open>class FSRS\<close>

definition DEFAULT_PARAMS :: "real list" where
  "DEFAULT_PARAMS =
     [0.4072, 1.1829, 3.1262, 15.4722, 7.2102, 0.5316, 1.0651, 0.0234, 1.616, 0.1544,
      0.9221, 2.0063, 0.2272, 0.2281, 1.5662, 0.0, 2.9469, 0.2272, 2.8284, 0.0, 0.15]"

record fsrs =
  w :: "real list"
  desired_retention :: real
  DECAY :: real
  FACTOR :: real

text \<open>
  \<^verbatim>\<open>FSRS.__init__(params=None, desired_retention=0.9)\<close>; \<open>None\<close> selects the defaults. The
  constant \<^verbatim>\<open>0.9 ** (1 / self.DECAY)\<close> has a positive base, so it is the real power.
\<close>

definition FSRS_init :: "real list option \<Rightarrow> real \<Rightarrow> fsrs" where
  "FSRS_init params dr =
     \<lparr> w = (case params of Some p \<Rightarrow> p | None \<Rightarrow> DEFAULT_PARAMS),
       desired_retention = dr,
       DECAY = - 0.5,
       FACTOR = 0.9 powr (1 / (- 0.5)) - 1 \<rparr>"

definition calculate_retrievability :: "fsrs \<Rightarrow> real \<Rightarrow> real \<Rightarrow> py_error + real" where
  "calculate_retrievability self elapsed_days stability =
     (if stability \<le> 0 then Inr 1
      else if elapsed_days \<le> 0 then Inr 1
      else
        ebind (py_div elapsed_days stability) (\<lambda>t_over_s.
        ebind (py_pow t_over_s (DECAY self)) (\<lambda>p.
        let base = 1 + FACTOR self * p in
        ebind (py_pow base (DECAY self)) (\<lambda>r.
        Inr (max 0 (min 1 r))))))"

text \<open>
  \<^verbatim>\<open>calculate_interval(stability, desired_retention=None)\<close>: \<open>None\<close> selects the configured
  retention. The quotient \<^verbatim>\<open>stability / self.FACTOR\<close> is evaluated before the power.
\<close>

definition calculate_interval :: "fsrs \<Rightarrow> real \<Rightarrow> real option \<Rightarrow> py_error + real" where
  "calculate_interval self stability dr_arg =
     (let dr = (case dr_arg of None \<Rightarrow> desired_retention self | Some x \<Rightarrow> x) in
      ebind (py_div stability (FACTOR self)) (\<lambda>q.
      ebind (py_div 1 (DECAY self)) (\<lambda>e.
      ebind (py_pow dr e) (\<lambda>p.
      let interval = q * (p - 1) in
      Inr (max 0.1 interval)))))"

definition init_difficulty :: "fsrs \<Rightarrow> int \<Rightarrow> py_error + real" where
  "init_difficulty self grade =
     ebind (index (w self) 4) (\<lambda>w4.
     ebind (index (w self) 5) (\<lambda>w5.
     let d0 = w4 - w5 * (of_int grade - 3) in
     Inr (max 1 (min 10 d0))))"

definition init_stability :: "fsrs \<Rightarrow> int \<Rightarrow> py_error + real" where
  "init_stability self grade =
     (if grade = 1 then index (w self) 0
      else if grade = 2 then index (w self) 1
      else if grade = 3 then index (w self) 2
      else index (w self) 3)"

definition next_difficulty :: "fsrs \<Rightarrow> real \<Rightarrow> int \<Rightarrow> py_error + real" where
  "next_difficulty self d grade =
     ebind (if grade = 1 then ebind (index (w self) 6) (\<lambda>w6. Inr (- w6 * (of_int grade - 3)))
            else if grade = 2 then ebind (index (w self) 6) (\<lambda>w6. Inr (- w6 * (of_int grade - 3)))
            else if grade = 4 then ebind (index (w self) 7) (\<lambda>w7. Inr (- w7 * (of_int grade - 3)))
            else Inr 0) (\<lambda>delta_d.
     let d_prime = d + delta_d * (10 - d) / 9 in
     let mean_reversion = 0.5 in
     ebind (index (w self) 4) (\<lambda>w4.
     let d_double_prime = mean_reversion * d_prime + (1 - mean_reversion) * w4 in
     Inr (max 1 (min 10 d_double_prime))))"

definition next_stability :: "fsrs \<Rightarrow> real \<Rightarrow> real \<Rightarrow> real \<Rightarrow> int \<Rightarrow> bool \<Rightarrow> py_error + real" where
  "next_stability self s d r grade is_lapse =
     (if is_lapse \<or> grade = 1 then
        ebind (index (w self) 11) (\<lambda>w11.
        ebind (index (w self) 12) (\<lambda>w12.
        ebind (py_pow d (- w12)) (\<lambda>pd.
        ebind (index (w self) 13) (\<lambda>w13.
        ebind (py_pow (s + 1) w13) (\<lambda>ps.
        ebind (index (w self) 10) (\<lambda>w10.
        let new_s = w11 * pd * (ps - 1) * exp (w10 * (1 - r)) in
        Inr (min s (max 0.1 new_s))))))))
      else
        let f_d = 11 - d in
        ebind (if s > 0 then ebind (index (w self) 9) (\<lambda>w9. py_pow s (- w9)) else Inr 1) (\<lambda>f_s.
        ebind (index (w self) 10) (\<lambda>w10.
        let f_r = exp (w10 * (1 - r)) - 1 in
        ebind (if grade = 2 then Inr (0.5, 1)
               else if grade = 4 then ebind (index (w self) 16) (\<lambda>w16. Inr (1, w16))
               else Inr (1, 1)) (\<lambda>(w15_factor, w16_factor).
        ebind (index (w self) 8) (\<lambda>w8.
        let s_inc = 1 + exp w8 * f_d * f_s * f_r * w15_factor * w16_factor in
        let new_s = s * s_inc in
        Inr (max 0.1 new_s))))))"

text \<open>
  The dictionary \<^verbatim>\<open>card_state\<close> that \<^verbatim>\<open>schedule_card\<close> reads with \<^verbatim>\<open>.get\<close>: a key may be
  absent (\<open>None\<close>). The field \<open>cs_k\<close> is the key \<^verbatim>\<open>'k'\<close>.
\<close>

record card_state =
  cs_state :: "string option"
  cs_stability :: "real option"
  cs_difficulty :: "real option"
  cs_retrievability :: "real option"
  cs_last_review :: "real option"
  cs_reps :: "int option"
  cs_lapses :: "int option"

text \<open>The dictionary that \<^verbatim>\<open>schedule_card\<close> returns, one field for each key.\<close>

record schedule =
  state :: string
  stability :: real
  difficulty :: real
  retrievability :: real
  interval :: real
  due_date :: real
  reps :: int
  lapses :: int
  last_review :: real

text \<open>
  \<^verbatim>\<open>schedule_card(grade, card_state)\<close>. The method takes no time argument: it calls
  \<^verbatim>\<open>datetime.utcnow()\<close> itself, once for the elapsed time (only on a card with a review
  history and a \<^verbatim>\<open>last_review\<close>), once for the due date and once for \<^verbatim>\<open>last_review\<close>.
  The model threads the clock through and returns what is left of it. The due date
  \<^verbatim>\<open>datetime.utcnow() + timedelta(days=new_interval)\<close> raises \<^verbatim>\<open>OverflowError\<close> when the interval
  or the date is out of range.
\<close>

definition schedule_card :: "fsrs \<Rightarrow> int \<Rightarrow> card_state \<Rightarrow> clock \<Rightarrow> py_error + (schedule \<times> clock)" where
  "schedule_card self grade card_state clk =
     (let state0 = get (cs_state card_state) ''new'';
          s = get (cs_stability card_state) 0;
          d = get (cs_difficulty card_state) 5;
          r = get (cs_retrievability card_state) 1;
          last_review0 = cs_last_review card_state;
          reps0 = get (cs_reps card_state) 0;
          lapses0 = get (cs_lapses card_state) 0
      in
      ebind
        (if state0 = ''new'' \<or> reps0 = 0 then
           ebind (init_stability self grade) (\<lambda>new_s.
           ebind (init_difficulty self grade) (\<lambda>new_d.
           let new_state = (if grade = 1 then ''learning'' else ''review'') in
           let new_lapses = (if grade = 1 then lapses0 + 1 else lapses0) in
           Inr (new_s, new_d, new_state, new_lapses, r, clk)))
         else
           ebind (case last_review0 of
                    Some lr \<Rightarrow>
                      (let (now, clk1) = utcnow clk in
                       let elapsed = (now - lr) / 86400 in
                       ebind (calculate_retrievability self elapsed s) (\<lambda>r1. Inr (r1, clk1)))
                  | None \<Rightarrow> Inr (1, clk)) (\<lambda>(r1, clk1).
           ebind (next_difficulty self d grade) (\<lambda>new_d.
           let is_lapse = (grade = 1) in
           ebind (next_stability self s d r1 grade is_lapse) (\<lambda>new_s.
           Inr (if grade = 1 then (new_s, new_d, ''relearning'', lapses0 + 1, r1, clk1)
                else (new_s, new_d, ''review'', lapses0, r1, clk1))))))
        (\<lambda>(new_s, new_d, new_state, new_lapses, r2, clk2).
           ebind (calculate_interval self new_s None) (\<lambda>new_interval.
           let (now_due, clk3) = utcnow clk2 in
           ebind (timedelta_days new_interval) (\<lambda>delta.
           ebind (datetime_add now_due delta) (\<lambda>new_due.
           let (now_last, clk4) = utcnow clk3 in
           Inr (\<lparr> state = new_state, stability = new_s, difficulty = new_d,
                  retrievability = r2, interval = new_interval, due_date = new_due,
                  reps = reps0 + 1, lapses = new_lapses, last_review = now_last \<rparr>, clk4))))))"

subsection \<open>The route \<^verbatim>\<open>POST /api/cards/<card_id>/review\<close>\<close>

text \<open>
  The rows of the tables \<^verbatim>\<open>cards\<close> and \<^verbatim>\<open>reviews\<close> (\<^verbatim>\<open>app/models.py\<close>), with the columns the
  route reads or writes. The field \<open>card_k\<close> is the column \<^verbatim>\<open>k\<close> of \<^verbatim>\<open>Card\<close>, the field
  \<open>rv_k\<close> the column \<^verbatim>\<open>k\<close> of \<^verbatim>\<open>Review\<close>. Every column but \<^verbatim>\<open>last_review\<close> has a
  default and holds a value; a \<^verbatim>\<open>NULL\<close> in one of them is outside the model.
\<close>

record card =
  card_deck_id :: nat
  card_state :: string
  card_difficulty :: real
  card_stability :: real
  card_retrievability :: real
  card_due_date :: real
  card_last_review :: "real option"
  card_interval :: real
  card_reps :: int
  card_lapses :: int

record review =
  rv_card_id :: nat
  rv_grade :: int
  rv_state_before :: string
  rv_difficulty_before :: real
  rv_stability_before :: real
  rv_retrievability_before :: real
  rv_difficulty_after :: real
  rv_stability_after :: real
  rv_interval_after :: real
  rv_reviewed_at :: real

record database =
  cards :: "nat \<rightharpoonup> card"
  reviews :: "review list"

text \<open>
  What the route answers: 404 for an unknown card, 400 with its message for a bad grade,
  500 when the scheduler raises, and otherwise the updated card and the new review (the
  rows that the JSON body is rendered from).
\<close>

datatype response =
  NotFound
  | BadRequest string
  | InternalServerError py_error
  | Ok card review

text \<open>
  The body of the request as \<^verbatim>\<open>request.get_json()\<close> returns it: a parsed JSON value, \<open>JNull\<close>
  for \<^verbatim>\<open>None\<close>. (A request on which \<^verbatim>\<open>get_json\<close> itself aborts is outside the model.)
\<close>

datatype json =
  JNull
  | JBool bool
  | JInt int
  | JFloat real
  | JString string
  | JArray "json list"
  | JObject "(string \<times> json) list"

text \<open>
  \<^verbatim>\<open>data.get(key)\<close>: only a JSON object, a \<^verbatim>\<open>dict\<close>, has the method; on any other value the
  call raises \<^verbatim>\<open>AttributeError\<close>. An absent key gives \<^verbatim>\<open>None\<close>; of a repeated key the parser
  keeps the last value.
\<close>

definition json_get :: "json \<Rightarrow> string \<Rightarrow> py_error + json" where
  "json_get data k =
     (case data of
        JObject kvs \<Rightarrow> Inr (case map_of (rev kvs) k of None \<Rightarrow> JNull | Some v \<Rightarrow> v)
      | _ \<Rightarrow> Inl AttributeError)"

text \<open>
  \<^verbatim>\<open>grade in [1, 2, 3, 4]\<close> compares with \<^verbatim>\<open>==\<close>: an integer or a float equal to one of the
  four passes, and so does \<^verbatim>\<open>True\<close>, which equals 1; a string, a list, an object and
  \<^verbatim>\<open>None\<close> equal none of them. \<open>grade_of\<close> is \<open>None\<close> when the test fails and otherwise the
  integer that the value equals, which is what the scheduler computes with.
\<close>

definition grade_of :: "json \<Rightarrow> int option" where
  "grade_of v =
     (case v of
        JInt n \<Rightarrow> if n \<in> set [1, 2, 3, 4] then Some n else None
      | JFloat x \<Rightarrow> if x \<in> set [1, 2, 3, 4] then Some \<lfloor>x\<rfloor> else None
      | JBool b \<Rightarrow> if b then Some 1 else None
      | _ \<Rightarrow> None)"

text \<open>
  \<^verbatim>\<open>review_card(card_id)\<close>. The argument \<open>data\<close> is \<^verbatim>\<open>request.get_json()\<close>. The scheduler is the
  module's \<^verbatim>\<open>fsrs_scheduler = FSRS()\<close>, taken as a parameter. An exception that the handler
  does not catch is answered with 500, and nothing is committed. \<^verbatim>\<open>reviewed_at\<close> is the
  column default \<^verbatim>\<open>datetime.utcnow\<close>, read when the row is written.
\<close>

definition review_card :: "fsrs \<Rightarrow> database \<Rightarrow> clock \<Rightarrow> nat \<Rightarrow> json \<Rightarrow> response \<times> database" where
  "review_card fsrs_scheduler db clk card_id data =
     (case cards db card_id of
        None \<Rightarrow> (NotFound, db)
      | Some c \<Rightarrow>
          (case json_get data ''grade'' of
             Inl e \<Rightarrow> (InternalServerError e, db)
           | Inr v \<Rightarrow>
               (case grade_of v of
                  None \<Rightarrow> (BadRequest ''Invalid grade. Must be 1-4'', db)
                | Some grade \<Rightarrow>
                    let state_before = card_state c;
                        difficulty_before = card_difficulty c;
                        stability_before = card_stability c;
                        retrievability_before = card_retrievability c;
                        cstate = \<lparr> cs_state = Some (card_state c),
                                   cs_stability = Some (card_stability c),
                                   cs_difficulty = Some (card_difficulty c),
                                   cs_retrievability = Some (card_retrievability c),
                                   cs_last_review = card_last_review c,
                                   cs_reps = Some (card_reps c),
                                   cs_lapses = Some (card_lapses c) \<rparr>
                    in
                    (case schedule_card fsrs_scheduler grade cstate clk of
                       Inl e \<Rightarrow> (InternalServerError e, db)
                     | Inr (new_state, clk1) \<Rightarrow>
                         let c1 = c \<lparr> card_state := state new_state,
                                      card_stability := stability new_state,
                                      card_difficulty := difficulty new_state,
                                      card_retrievability := retrievability new_state,
                                      card_interval := interval new_state,
                                      card_due_date := due_date new_state,
                                      card_reps := reps new_state,
                                      card_lapses := lapses new_state,
                                      card_last_review := Some (last_review new_state) \<rparr>;
                             (now, clk2) = utcnow clk1;
                             rv = \<lparr> rv_card_id = card_id,
                                    rv_grade = grade,
                                    rv_state_before = state_before,
                                    rv_difficulty_before = difficulty_before,
                                    rv_stability_before = stability_before,
                                    rv_retrievability_before = retrievability_before,
                                    rv_difficulty_after = card_difficulty c1,
                                    rv_stability_after = card_stability c1,
                                    rv_interval_after = card_interval c1,
                                    rv_reviewed_at = now \<rparr>
                         in (Ok c1 rv,
                             db \<lparr> cards := (cards db)(card_id \<mapsto> c1),
                                  reviews := reviews db @ [rv] \<rparr>)))))"

section \<open>Basic facts\<close>

lemma ebind_Inr: "ebind (Inr v) f = f v"
  by (simp add: ebind_def)

lemma ebind_Inl: "ebind (Inl e) f = Inl e"
  by (simp add: ebind_def)

lemma py_pow_pos: "0 < x \<Longrightarrow> py_pow x y = Inr (x powr y)"
  by (simp add: py_pow_def)

lemma w_FSRS_init: "w (FSRS_init (Some ws) dr) = ws" "w (FSRS_init None dr) = DEFAULT_PARAMS"
  by (simp_all add: FSRS_init_def)

lemma length_DEFAULT_PARAMS: "length DEFAULT_PARAMS = 21"
  by (simp add: DEFAULT_PARAMS_def)

lemma FACTOR_value: "FACTOR (FSRS_init params dr) = 19 / 81"
proof -
  have "(0.9::real) powr (- 2) = inverse (0.9 powr 2)" by (simp only: powr_minus)
  also have "\<dots> = inverse ((0.9::real)^2)" by (simp add: powr_numeral)
  also have "\<dots> = 100 / 81" by (simp add: power2_eq_square)
  finally show ?thesis by (simp add: FSRS_init_def)
qed

lemma DECAY_value: "DECAY (FSRS_init params dr) = - 1 / 2"
  by (simp add: FSRS_init_def)

lemma calc_retr_eq:
  "calculate_retrievability (FSRS_init params dr) t s =
     Inr (if s \<le> 0 \<or> t \<le> 0 then 1
          else max 0 (min 1 ((1 + FACTOR (FSRS_init params dr) * (t / s) powr (- 0.5)) powr (- 0.5))))"
proof (cases "s \<le> 0 \<or> t \<le> 0")
  case True
  then show ?thesis by (auto simp add: calculate_retrievability_def)
next
  case False
  then have pos: "0 < t / s" by simp
  have F: "FACTOR (FSRS_init params dr) = 19 / 81" by (rule FACTOR_value)
  have "0 \<le> (t / s) powr (- (1/2))" by simp
  then have base: "0 < 1 + 19 / 81 * (t / s) powr (- (1/2))"
    by (smt (verit) mult_nonneg_nonneg divide_nonneg_nonneg)
  from False pos base show ?thesis
    by (simp add: calculate_retrievability_def py_div_def ebind_Inr Let_def F DECAY_value py_pow_pos)
qed

lemma calc_retr_range:
  "\<exists>r. calculate_retrievability (FSRS_init params dr) t s = Inr r \<and> 0 \<le> r \<and> r \<le> 1"
  by (simp add: calc_retr_eq)

lemma calc_interval_default:
  "calculate_interval (FSRS_init params dr) s (Some 0.9) = Inr (max 0.1 s)"
proof -
  have "(0.9::real) powr (- 2) = inverse (0.9 powr 2)" by (simp only: powr_minus)
  also have "\<dots> = inverse ((0.9::real)^2)" by (simp add: powr_numeral)
  also have "\<dots> = 100 / 81" by (simp add: power2_eq_square)
  finally have p: "(9 / 10 :: real) powr (- 2) = 100 / 81" by simp
  show ?thesis
    by (simp add: calculate_interval_def py_div_def ebind_Inr Let_def FACTOR_value DECAY_value
        py_pow_pos p)
qed

lemma calc_interval_Inr:
  assumes "dr \<noteq> 0"
  shows "\<exists>i. calculate_interval (FSRS_init params dr) s None = Inr i \<and> 0.1 \<le> i"
proof -
  have "\<exists>p. py_pow dr (- 2) = Inr p"
    using assms by (cases "dr < 0") (simp_all add: py_pow_def)
  then obtain p where p: "py_pow dr (- 2) = Inr p" ..
  have d: "desired_retention (FSRS_init params dr) = dr" by (simp add: FSRS_init_def)
  show ?thesis
    by (simp add: calculate_interval_def py_div_def ebind_Inr Let_def FACTOR_value DECAY_value p d)
qed

lemma init_stability_Inr:
  assumes "length (w self) = 21"
  shows "init_stability self g =
     Inr (if g = 1 then w self ! 0 else if g = 2 then w self ! 1
          else if g = 3 then w self ! 2 else w self ! 3)"
  using assms by (simp add: init_stability_def index_def)

lemma init_difficulty_Inr:
  assumes "length (w self) = 21"
  shows "init_difficulty self g = Inr (max 1 (min 10 (w self ! 4 - w self ! 5 * (of_int g - 3))))"
  using assms by (simp add: init_difficulty_def index_def ebind_Inr)

lemma next_difficulty_Inr:
  assumes "length (w self) = 21"
  shows "next_difficulty self d g =
     Inr (max 1 (min 10 (0.5 * (d + (if g = 1 \<or> g = 2 then - (w self ! 6) * (of_int g - 3)
                                     else if g = 4 then - (w self ! 7) * (of_int g - 3)
                                     else 0) * (10 - d) / 9) + 0.5 * (w self ! 4))))"
  using assms by (auto simp add: next_difficulty_def index_def ebind_Inr Let_def)

lemma next_stability_lapse_Inr:
  assumes "length (w self) = 21" and "0 < d" and "- 1 < s" and "is_lapse \<or> g = 1"
  shows "next_stability self s d r g is_lapse =
     Inr (min s (max 0.1 (w self ! 11 * d powr (- (w self ! 12)) * ((s + 1) powr (w self ! 13) - 1)
                           * exp (w self ! 10 * (1 - r)))))"
proof -
  have "0 < s + 1" using assms(3) by simp
  then show ?thesis
    using assms by (simp add: next_stability_def index_def ebind_Inr Let_def py_pow_pos)
qed

lemma next_stability_success_Inr:
  assumes "length (w self) = 21" and "\<not> is_lapse" and "g \<noteq> 1"
  shows "next_stability self s d r g is_lapse =
     Inr (max 0.1 (s * (1 + exp (w self ! 8) * (11 - d) * (if 0 < s then s powr (- (w self ! 9)) else 1)
                          * (exp (w self ! 10 * (1 - r)) - 1)
                          * (if g = 2 then 0.5 else 1) * (if g = 4 then w self ! 16 else 1))))"
  using assms by (simp add: next_stability_def index_def ebind_Inr Let_def py_pow_pos)

section \<open>The scheduler in normal form, and what it reads from the clock\<close>

lemma ebind_assoc: "ebind (ebind m f) k = ebind m (\<lambda>x. ebind (f x) k)"
  by (cases m) (simp_all add: ebind_def)

lemma map_sum_ebind: "map_sum id h (ebind m f) = ebind m (\<lambda>x. map_sum id h (f x))"
  by (cases m) (simp_all add: ebind_def)

text \<open>The due date \<^verbatim>\<open>now + timedelta(days=i)\<close>: it is \<open>now + i * 86400\<close> or \<^verbatim>\<open>OverflowError\<close>.\<close>

lemma due_date_cases:
  "ebind (timedelta_days i) (datetime_add now) = Inl OverflowError
   \<or> ebind (timedelta_days i) (datetime_add now) = Inr (now + i * 86400)"
  by (simp add: timedelta_days_def datetime_add_def ebind_def)

lemma due_date_in_range:
  assumes "0 \<le> i" and "i \<le> 54100" and "0 \<le> now" and "now \<le> 3590000 * 86400"
  shows "ebind (timedelta_days i) (datetime_add now) = Inr (now + i * 86400)"
proof -
  have "\<lfloor>i\<rfloor> \<le> 54100" using assms(2) by (simp add: floor_le_iff)
  moreover have "0 \<le> \<lfloor>i\<rfloor>" using assms(1) by simp
  moreover have "i * 86400 \<le> 54100 * 86400" using assms(2) by simp
  ultimately show ?thesis
    using assms by (simp add: timedelta_days_def datetime_add_def datetime_max_def ebind_Inr)
qed

lemma schedule_card_normal:
  "schedule_card self g st c =
    (if get (cs_state st) ''new'' = ''new'' \<or> get (cs_reps st) 0 = 0 then
       ebind (init_stability self g) (\<lambda>new_s.
       ebind (init_difficulty self g) (\<lambda>new_d.
       ebind (calculate_interval self new_s None) (\<lambda>i.
       ebind (ebind (timedelta_days i) (datetime_add (c 0))) (\<lambda>due.
       Inr (\<lparr> state = (if g = 1 then ''learning'' else ''review''), stability = new_s,
              difficulty = new_d, retrievability = get (cs_retrievability st) 1, interval = i,
              due_date = due, reps = get (cs_reps st) 0 + 1,
              lapses = (if g = 1 then get (cs_lapses st) 0 + 1 else get (cs_lapses st) 0),
              last_review = c 1 \<rparr>, \<lambda>n. c (Suc (Suc n)))))))
     else
       (case cs_last_review st of
          None \<Rightarrow>
            ebind (next_difficulty self (get (cs_difficulty st) 5) g) (\<lambda>new_d.
            ebind (next_stability self (get (cs_stability st) 0) (get (cs_difficulty st) 5) 1 g (g = 1)) (\<lambda>new_s.
            ebind (calculate_interval self new_s None) (\<lambda>i.
            ebind (ebind (timedelta_days i) (datetime_add (c 0))) (\<lambda>due.
            Inr (\<lparr> state = (if g = 1 then ''relearning'' else ''review''), stability = new_s,
                   difficulty = new_d, retrievability = 1, interval = i,
                   due_date = due, reps = get (cs_reps st) 0 + 1,
                   lapses = (if g = 1 then get (cs_lapses st) 0 + 1 else get (cs_lapses st) 0),
                   last_review = c 1 \<rparr>, \<lambda>n. c (Suc (Suc n)))))))
        | Some lr \<Rightarrow>
            ebind (calculate_retrievability self ((c 0 - lr) / 86400) (get (cs_stability st) 0)) (\<lambda>r1.
            ebind (next_difficulty self (get (cs_difficulty st) 5) g) (\<lambda>new_d.
            ebind (next_stability self (get (cs_stability st) 0) (get (cs_difficulty st) 5) r1 g (g = 1)) (\<lambda>new_s.
            ebind (calculate_interval self new_s None) (\<lambda>i.
            ebind (ebind (timedelta_days i) (datetime_add (c 1))) (\<lambda>due.
            Inr (\<lparr> state = (if g = 1 then ''relearning'' else ''review''), stability = new_s,
                   difficulty = new_d, retrievability = r1, interval = i,
                   due_date = due, reps = get (cs_reps st) 0 + 1,
                   lapses = (if g = 1 then get (cs_lapses st) 0 + 1 else get (cs_lapses st) 0),
                   last_review = c 2 \<rparr>, \<lambda>n. c (Suc (Suc (Suc n)))))))))))"
proof (cases "get (cs_state st) ''new'' = ''new'' \<or> get (cs_reps st) 0 = 0")
  case True
  then show ?thesis
    unfolding schedule_card_def Let_def
    by (simp add: ebind_assoc ebind_Inr utcnow_def)
next
  case False
  show ?thesis
  proof (cases "cs_last_review st")
    case None
    with False show ?thesis
      unfolding schedule_card_def Let_def
      by (cases "g = 1") (simp_all add: ebind_assoc ebind_Inr utcnow_def)
  next
    case (Some lr)
    with False show ?thesis
      unfolding schedule_card_def Let_def
      by (cases "g = 1") (simp_all add: ebind_assoc ebind_Inr utcnow_def numeral_2_eq_2)
  qed
qed

lemma schedule_card_clock_agree:
  assumes "c 0 = c' 0" and "c 1 = c' 1" and "c 2 = c' 2"
  shows "map_sum id fst (schedule_card self g st c) = map_sum id fst (schedule_card self g st c')"
proof -
  have 1: "c (Suc 0) = c' (Suc 0)" using assms(2) by simp
  show ?thesis
    by (simp add: schedule_card_normal [of self g st c] schedule_card_normal [of self g st c']
        map_sum_ebind assms(1,3) 1 split: option.split)
qed

lemma schedule_card_reads_clock:
  assumes "schedule_card self g st c = Inr (sch, c')"
  shows "(due_date sch = c 0 + interval sch * 86400 \<and> last_review sch = c 1)
       \<or> (due_date sch = c 1 + interval sch * 86400 \<and> last_review sch = c 2)"
proof -
  have td: "timedelta_days x = Inr d \<Longrightarrow> d = x * 86400" for x d
    by (simp add: timedelta_days_def split: if_splits)
  have da: "datetime_add t d = Inr v \<Longrightarrow> v = t + d" for t d v
    by (simp add: datetime_add_def split: if_splits)
  show ?thesis
    using assms unfolding schedule_card_normal
    by (auto simp add: ebind_def dest!: td da split: if_splits option.splits sum.splits)
qed

section \<open>The scheduler on a first review and on a later review\<close>

lemma DEFAULT_PARAMS_nth:
  "DEFAULT_PARAMS ! 0 = 0.4072" "DEFAULT_PARAMS ! 1 = 1.1829" "DEFAULT_PARAMS ! 2 = 3.1262"
  "DEFAULT_PARAMS ! 3 = 15.4722" "DEFAULT_PARAMS ! 4 = 7.2102" "DEFAULT_PARAMS ! 5 = 0.5316"
  "DEFAULT_PARAMS ! Suc 0 = 1.1829" "DEFAULT_PARAMS ! 8 = 1.616" "DEFAULT_PARAMS ! 9 = 0.1544"
  "DEFAULT_PARAMS ! 10 = 0.9221" "DEFAULT_PARAMS ! 11 = 2.0063" "DEFAULT_PARAMS ! 12 = 0.2272"
  "DEFAULT_PARAMS ! 13 = 0.2281" "DEFAULT_PARAMS ! 16 = 2.9469"
  by (simp_all add: DEFAULT_PARAMS_def)

text \<open>
  Over the reals the factor \<open>0.9 ^ (1 / DECAY) - 1\<close> of the interval cancels against \<open>FACTOR\<close>.
  (In double arithmetic the quotient and the product round, and the result can differ from
  the stability in the last place.)
\<close>

lemma calc_interval_retention_default:
  "calculate_interval (FSRS_init params 0.9) s None = Inr (max 0.1 s)"
proof -
  have "calculate_interval (FSRS_init params 0.9) s None
          = calculate_interval (FSRS_init params 0.9) s (Some 0.9)"
    by (simp add: calculate_interval_def FSRS_init_def)
  then show ?thesis by (simp only: calc_interval_default)
qed

lemma next_stability_lapse_le:
  assumes "next_stability self s d r 1 is_lapse = Inr v"
  shows "v \<le> s"
  using assms unfolding next_stability_def ebind_def Let_def
  by (auto split: sum.splits)

text \<open>A first review: everything but the due date is fixed by the weights and the grade.\<close>

lemma schedule_card_first:
  assumes first: "get (cs_state st) ''new'' = ''new'' \<or> get (cs_reps st) 0 = 0"
    and cfg: "self = FSRS_init params dr" and len: "length (w self) = 21" and dr: "dr \<noteq> 0"
  shows "\<exists>i. calculate_interval self
               (if g = 1 then w self ! 0 else if g = 2 then w self ! 1
                else if g = 3 then w self ! 2 else w self ! 3) None = Inr i
           \<and> 0.1 \<le> i
           \<and> schedule_card self g st clk =
               ebind (ebind (timedelta_days i) (datetime_add (clk 0))) (\<lambda>due.
               Inr (\<lparr> state = (if g = 1 then ''learning'' else ''review''),
                      stability = (if g = 1 then w self ! 0 else if g = 2 then w self ! 1
                                   else if g = 3 then w self ! 2 else w self ! 3),
                      difficulty = max 1 (min 10 (w self ! 4 - w self ! 5 * (of_int g - 3))),
                      retrievability = get (cs_retrievability st) 1,
                      interval = i,
                      due_date = due,
                      reps = get (cs_reps st) 0 + 1,
                      lapses = (if g = 1 then get (cs_lapses st) 0 + 1 else get (cs_lapses st) 0),
                      last_review = clk 1 \<rparr>, \<lambda>n. clk (Suc (Suc n))))"
proof -
  let ?s0 = "if g = 1 then w self ! 0 else if g = 2 then w self ! 1
             else if g = 3 then w self ! 2 else w self ! 3"
  from calc_interval_Inr [OF dr, of params ?s0] obtain i
    where i: "calculate_interval self ?s0 None = Inr i" and ib: "0.1 \<le> i"
    unfolding cfg [symmetric] by blast
  have "schedule_card self g st clk =
               ebind (ebind (timedelta_days i) (datetime_add (clk 0))) (\<lambda>due.
               Inr (\<lparr> state = (if g = 1 then ''learning'' else ''review''),
                      stability = ?s0,
                      difficulty = max 1 (min 10 (w self ! 4 - w self ! 5 * (of_int g - 3))),
                      retrievability = get (cs_retrievability st) 1,
                      interval = i,
                      due_date = due,
                      reps = get (cs_reps st) 0 + 1,
                      lapses = (if g = 1 then get (cs_lapses st) 0 + 1 else get (cs_lapses st) 0),
                      last_review = clk 1 \<rparr>, \<lambda>n. clk (Suc (Suc n))))"
    unfolding schedule_card_normal
    using first
    by (simp only: init_stability_Inr [OF len] init_difficulty_Inr [OF len] i ebind_Inr if_True)
  with i ib show ?thesis by blast
qed

lemma schedule_card_later_None:
  assumes later: "get (cs_state st) ''new'' \<noteq> ''new''" "get (cs_reps st) 0 \<noteq> 0"
    and lr: "cs_last_review st = None"
    and nd: "next_difficulty self (get (cs_difficulty st) 5) g = Inr nd"
    and ns: "next_stability self (get (cs_stability st) 0) (get (cs_difficulty st) 5) 1 g (g = 1)
               = Inr ns"
    and i: "calculate_interval self ns None = Inr i"
  shows "schedule_card self g st clk =
           ebind (ebind (timedelta_days i) (datetime_add (clk 0))) (\<lambda>due.
             Inr (\<lparr> state = (if g = 1 then ''relearning'' else ''review''),
                    stability = ns, difficulty = nd, retrievability = 1, interval = i,
                    due_date = due,
                    reps = get (cs_reps st) 0 + 1,
                    lapses = (if g = 1 then get (cs_lapses st) 0 + 1 else get (cs_lapses st) 0),
                    last_review = clk 1 \<rparr>, \<lambda>n. clk (Suc (Suc n))))"
proof -
  have cond: "(get (cs_state st) ''new'' = ''new'' \<or> get (cs_reps st) 0 = 0) = False"
    using later by simp
  show ?thesis
    unfolding schedule_card_normal
    by (simp only: cond if_False lr option.case nd ns i ebind_Inr)
qed

lemma schedule_card_later_Some:
  assumes later: "get (cs_state st) ''new'' \<noteq> ''new''" "get (cs_reps st) 0 \<noteq> 0"
    and lr: "cs_last_review st = Some t"
    and r1: "calculate_retrievability self ((clk 0 - t) / 86400) (get (cs_stability st) 0) = Inr r1"
    and nd: "next_difficulty self (get (cs_difficulty st) 5) g = Inr nd"
    and ns: "next_stability self (get (cs_stability st) 0) (get (cs_difficulty st) 5) r1 g (g = 1)
               = Inr ns"
    and i: "calculate_interval self ns None = Inr i"
  shows "schedule_card self g st clk =
           ebind (ebind (timedelta_days i) (datetime_add (clk 1))) (\<lambda>due.
             Inr (\<lparr> state = (if g = 1 then ''relearning'' else ''review''),
                    stability = ns, difficulty = nd, retrievability = r1, interval = i,
                    due_date = due,
                    reps = get (cs_reps st) 0 + 1,
                    lapses = (if g = 1 then get (cs_lapses st) 0 + 1 else get (cs_lapses st) 0),
                    last_review = clk 2 \<rparr>, \<lambda>n. clk (Suc (Suc (Suc n)))))"
proof -
  have cond: "(get (cs_state st) ''new'' = ''new'' \<or> get (cs_reps st) 0 = 0) = False"
    using later by simp
  show ?thesis
    unfolding schedule_card_normal
    by (simp only: cond if_False lr option.case r1 nd ns i ebind_Inr)
qed

text \<open>A later review, of a card with a positive difficulty and a stability above -1.\<close>

lemma schedule_card_later:
  assumes later: "get (cs_state st) ''new'' \<noteq> ''new''" "get (cs_reps st) 0 \<noteq> 0"
    and cfg: "self = FSRS_init params dr" and len: "length (w self) = 21" and dr: "dr \<noteq> 0"
    and d: "0 < get (cs_difficulty st) 5" and s: "- 1 < get (cs_stability st) 0"
  shows "\<exists>sch0 rest now.
           schedule_card self g st clk =
             ebind (ebind (timedelta_days (interval sch0)) (datetime_add now))
               (\<lambda>due. Inr (sch0 \<lparr> due_date := due \<rparr>, rest))
           \<and> (now = clk 0 \<or> now = clk 1)
           \<and> state sch0 = (if g = 1 then ''relearning'' else ''review'')
           \<and> next_stability self (get (cs_stability st) 0) (get (cs_difficulty st) 5)
                (retrievability sch0) g (g = 1) = Inr (stability sch0)
           \<and> next_difficulty self (get (cs_difficulty st) 5) g = Inr (difficulty sch0)
           \<and> 0 \<le> retrievability sch0 \<and> retrievability sch0 \<le> 1
           \<and> calculate_interval self (stability sch0) None = Inr (interval sch0)
           \<and> 0.1 \<le> interval sch0
           \<and> reps sch0 = get (cs_reps st) 0 + 1
           \<and> lapses sch0 = (if g = 1 then get (cs_lapses st) 0 + 1 else get (cs_lapses st) 0)"
proof -
  let ?s = "get (cs_stability st) 0" and ?d = "get (cs_difficulty st) 5"
  obtain nd where nd: "next_difficulty self ?d g = Inr nd"
    using next_difficulty_Inr [OF len] by blast
  have ex_ns: "\<exists>ns. next_stability self ?s ?d r g (g = 1) = Inr ns" for r
  proof (cases "g = 1")
    case True
    then show ?thesis using next_stability_lapse_Inr [OF len d s, of "g = 1" g r] by blast
  next
    case False
    then show ?thesis using next_stability_success_Inr [OF len, of "g = 1" g ?s ?d r] by blast
  qed
  have ex_i: "\<exists>i. calculate_interval self v None = Inr i \<and> 0.1 \<le> i" for v
    using calc_interval_Inr [OF dr, of params v] unfolding cfg [symmetric] .
  show ?thesis
  proof (cases "cs_last_review st")
    case None
    from ex_ns [of 1] obtain ns where ns: "next_stability self ?s ?d 1 g (g = 1) = Inr ns" ..
    from ex_i [of ns] obtain i where i: "calculate_interval self ns None = Inr i"
      and ib: "0.1 \<le> i" by blast
    let ?sch0 = "\<lparr> state = (if g = 1 then ''relearning'' else ''review''),
                    stability = ns, difficulty = nd, retrievability = 1, interval = i,
                    due_date = 0,
                    reps = get (cs_reps st) 0 + 1,
                    lapses = (if g = 1 then get (cs_lapses st) 0 + 1 else get (cs_lapses st) 0),
                    last_review = clk 1 \<rparr>"
    have eq: "schedule_card self g st clk =
             ebind (ebind (timedelta_days (interval ?sch0)) (datetime_add (clk 0)))
               (\<lambda>due. Inr (?sch0 \<lparr> due_date := due \<rparr>, \<lambda>n. clk (Suc (Suc n))))"
      using schedule_card_later_None [OF later None nd ns i, of clk] by simp
    have props: "state ?sch0 = (if g = 1 then ''relearning'' else ''review'')
           \<and> next_stability self ?s ?d (retrievability ?sch0) g (g = 1) = Inr (stability ?sch0)
           \<and> next_difficulty self ?d g = Inr (difficulty ?sch0)
           \<and> 0 \<le> retrievability ?sch0 \<and> retrievability ?sch0 \<le> 1
           \<and> calculate_interval self (stability ?sch0) None = Inr (interval ?sch0)
           \<and> 0.1 \<le> interval ?sch0
           \<and> reps ?sch0 = get (cs_reps st) 0 + 1
           \<and> lapses ?sch0 = (if g = 1 then get (cs_lapses st) 0 + 1 else get (cs_lapses st) 0)"
      using nd ns i ib by simp
    from eq props show ?thesis by blast
  next
    case (Some t)
    from calc_retr_range [of params dr "(clk 0 - t) / 86400" ?s] obtain r1
      where r1: "calculate_retrievability self ((clk 0 - t) / 86400) ?s = Inr r1"
        and rb: "0 \<le> r1" "r1 \<le> 1"
      unfolding cfg [symmetric] by blast
    from ex_ns [of r1] obtain ns where ns: "next_stability self ?s ?d r1 g (g = 1) = Inr ns" ..
    from ex_i [of ns] obtain i where i: "calculate_interval self ns None = Inr i"
      and ib: "0.1 \<le> i" by blast
    let ?sch0 = "\<lparr> state = (if g = 1 then ''relearning'' else ''review''),
                    stability = ns, difficulty = nd, retrievability = r1, interval = i,
                    due_date = 0,
                    reps = get (cs_reps st) 0 + 1,
                    lapses = (if g = 1 then get (cs_lapses st) 0 + 1 else get (cs_lapses st) 0),
                    last_review = clk 2 \<rparr>"
    have eq: "schedule_card self g st clk =
             ebind (ebind (timedelta_days (interval ?sch0)) (datetime_add (clk 1)))
               (\<lambda>due. Inr (?sch0 \<lparr> due_date := due \<rparr>, \<lambda>n. clk (Suc (Suc (Suc n)))))"
      using schedule_card_later_Some [where clk = clk, OF later Some r1 nd ns i] by simp
    have props: "state ?sch0 = (if g = 1 then ''relearning'' else ''review'')
           \<and> next_stability self ?s ?d (retrievability ?sch0) g (g = 1) = Inr (stability ?sch0)
           \<and> next_difficulty self ?d g = Inr (difficulty ?sch0)
           \<and> 0 \<le> retrievability ?sch0 \<and> retrievability ?sch0 \<le> 1
           \<and> calculate_interval self (stability ?sch0) None = Inr (interval ?sch0)
           \<and> 0.1 \<le> interval ?sch0
           \<and> reps ?sch0 = get (cs_reps st) 0 + 1
           \<and> lapses ?sch0 = (if g = 1 then get (cs_lapses st) 0 + 1 else get (cs_lapses st) 0)"
      using nd ns i ib rb by simp
    from eq props show ?thesis by blast
  qed
qed

section \<open>The due date, and bounds for the default weights\<close>

lemma due_bind_in_range:
  assumes "0 \<le> i" and "i \<le> 54100" and "0 \<le> now" and "now \<le> 3590000 * 86400"
  shows "ebind (ebind (timedelta_days i) (datetime_add now)) f = f (now + i * 86400)"
  by (simp only: due_date_in_range [OF assms] ebind_Inr)

text \<open>Bounds for the default weights.\<close>

lemma exp_2_le: "exp (2::real) \<le> 9"
proof -
  have "exp (2::real) = exp 1 * exp 1" by (simp add: exp_add [symmetric])
  also have "\<dots> \<le> 3 * 3" by (intro mult_mono exp_le) simp_all
  finally show ?thesis by simp
qed

lemma mult_bounds:
  fixes x y a b :: real
  assumes "0 \<le> x" and "x \<le> a" and "0 \<le> y" and "y \<le> b"
  shows "0 \<le> x * y" and "x * y \<le> a * b"
proof -
  show "0 \<le> x * y" using assms by simp
  show "x * y \<le> a * b" using assms by (intro mult_mono) auto
qed

lemma stability_times_decay:
  fixes s a :: real
  assumes "0 \<le> a" and "a \<le> 1" and "s \<le> 100"
  shows "s * (if 0 < s then s powr (- a) else 1) \<le> 100"
proof (cases "0 < s")
  case False
  then show ?thesis using assms(3) by simp
next
  case True
  show ?thesis
  proof (cases "1 \<le> s")
    case True
    then have "s powr (- a) \<le> s powr 0" using assms(1) by (intro powr_mono) simp_all
    then have "s powr (- a) \<le> 1" using True by simp
    then have "s * s powr (- a) \<le> s * 1" using True by (intro mult_left_mono) simp_all
    then have "s * s powr (- a) \<le> 100" using assms(3) by linarith
    moreover have "s * (if 0 < s then s powr (- a) else 1) = s * s powr (- a)"
      using \<open>0 < s\<close> by simp
    ultimately show ?thesis by (simp only:)
  next
    case False
    have "s * s powr (- a) = s powr (1 - a)"
      using \<open>0 < s\<close> by (simp add: powr_diff powr_minus field_simps)
    also have "\<dots> \<le> 1 powr (1 - a)"
      using \<open>0 < s\<close> False assms(2) by (intro powr_mono2) simp_all
    finally have "s * s powr (- a) \<le> 100" by simp
    moreover have "s * (if 0 < s then s powr (- a) else 1) = s * s powr (- a)"
      using \<open>0 < s\<close> by simp
    ultimately show ?thesis by (simp only:)
  qed
qed

text \<open>
  The new stability is at most 54100 days when the prior stability is at most 100 and the
  weights are within the bounds below, as the default weights are.
\<close>

lemma next_stability_bound:
  fixes s d r v :: real
  assumes len: "length (w self) = 21"
    and w8: "w self ! 8 \<le> 2" and w9: "0 \<le> w self ! 9" "w self ! 9 \<le> 1"
    and w10: "0 \<le> w self ! 10" "w self ! 10 \<le> 1"
    and w16: "0 \<le> w self ! 16" "w self ! 16 \<le> 3"
    and s: "0 \<le> s" "s \<le> 100" and d: "1 \<le> d" "d \<le> 10" and r: "0 \<le> r" "r \<le> 1"
    and ns: "next_stability self s d r g is_lapse = Inr v"
  shows "v \<le> 54100"
proof (cases "is_lapse \<or> g = 1")
  case True
  have "0 < d" "- 1 < s" using s d by simp_all
  from ns [unfolded next_stability_lapse_Inr [OF len this True]] s show ?thesis by auto
next
  case False
  then have nl: "\<not> is_lapse" and g1: "g \<noteq> 1" by simp_all
  let ?e8 = "exp (w self ! 8)"
  let ?fs = "if 0 < s then s powr (- (w self ! 9)) else 1"
  let ?fr = "exp (w self ! 10 * (1 - r)) - 1"
  let ?a = "if g = 2 then 0.5 else (1::real)" and ?b = "if g = 4 then w self ! 16 else 1"
  have "Inr v = Inr (max 0.1 (s * (1 + ?e8 * (11 - d) * ?fs * ?fr * ?a * ?b)))"
    using ns [symmetric] unfolding next_stability_success_Inr [OF len nl g1] by simp
  then have v: "v = max 0.1 (s * (1 + ?e8 * (11 - d) * ?fs * ?fr * ?a * ?b))"
    by (simp only: sum.inject)
  have "?e8 \<le> exp 2" using w8 by (simp only: exp_le_cancel_iff)
  then have e8: "0 \<le> ?e8" "?e8 \<le> 9" using exp_2_le by (simp, linarith)
  have fd: "0 \<le> 11 - d" "11 - d \<le> 10" using d by simp_all
  have sf: "0 \<le> s * ?fs" "s * ?fs \<le> 100"
    using stability_times_decay [OF w9 s(2)] s(1) by simp_all
  have "w self ! 10 * (1 - r) \<le> 1 * 1" using w10 r by (intro mult_mono) simp_all
  moreover have "0 \<le> w self ! 10 * (1 - r)" using w10 r by simp
  ultimately have "exp (w self ! 10 * (1 - r)) \<le> exp 1" "1 \<le> exp (w self ! 10 * (1 - r))"
    by simp_all
  then have fr: "0 \<le> ?fr" "?fr \<le> 2" using exp_le by linarith+
  have a: "0 \<le> ?a" "?a \<le> 1" by simp_all
  have b: "0 \<le> ?b" "?b \<le> 3" using w16 by simp_all
  note p1 = mult_bounds [OF e8 fd]
  note p2 = mult_bounds [OF p1 sf]
  note p3 = mult_bounds [OF p2 fr]
  note p4 = mult_bounds [OF p3 a]
  note p5 = mult_bounds [OF p4 b]
  have "s * (1 + ?e8 * (11 - d) * ?fs * ?fr * ?a * ?b)
          = s + ?e8 * (11 - d) * (s * ?fs) * ?fr * ?a * ?b"
    by (simp add: algebra_simps)
  with p5(2) s have "s * (1 + ?e8 * (11 - d) * ?fs * ?fr * ?a * ?b) \<le> 54100" by simp
  with v show ?thesis by simp
qed

lemma default_weights:
  "length (w (FSRS_init None dr)) = 21"
  "w (FSRS_init None dr) ! 8 \<le> 2"
  "0 \<le> w (FSRS_init None dr) ! 9" "w (FSRS_init None dr) ! 9 \<le> 1"
  "0 \<le> w (FSRS_init None dr) ! 10" "w (FSRS_init None dr) ! 10 \<le> 1"
  "0 \<le> w (FSRS_init None dr) ! 16" "w (FSRS_init None dr) ! 16 \<le> 3"
  by (simp_all add: w_FSRS_init length_DEFAULT_PARAMS DEFAULT_PARAMS_nth)

text \<open>The default scheduler \<^verbatim>\<open>FSRS()\<close> on a first review, evaluated.\<close>

lemma schedule_card_first_default:
  assumes first: "get (cs_state st) ''new'' = ''new'' \<or> get (cs_reps st) 0 = 0"
    and c0: "0 \<le> c 0" "c 0 \<le> 3590000 * 86400"
  shows "map_sum id fst (schedule_card (FSRS_init None 0.9) g st c) =
     Inr \<lparr> state = (if g = 1 then ''learning'' else ''review''),
           stability = (if g = 1 then 0.4072 else if g = 2 then 1.1829
                        else if g = 3 then 3.1262 else 15.4722),
           difficulty = max 1 (min 10 (7.2102 - 0.5316 * (of_int g - 3))),
           retrievability = get (cs_retrievability st) 1,
           interval = (if g = 1 then 0.4072 else if g = 2 then 1.1829
                       else if g = 3 then 3.1262 else 15.4722),
           due_date = c 0 + (if g = 1 then 0.4072 else if g = 2 then 1.1829
                             else if g = 3 then 3.1262 else 15.4722) * 86400,
           reps = get (cs_reps st) 0 + 1,
           lapses = (if g = 1 then get (cs_lapses st) 0 + 1 else get (cs_lapses st) 0),
           last_review = c 1 \<rparr>"
proof -
  let ?self = "FSRS_init None 0.9"
  let ?s0 = "if g = 1 then w ?self ! 0 else if g = 2 then w ?self ! 1
             else if g = 3 then w ?self ! 2 else w ?self ! 3"
  have l: "length (w ?self) = 21" by (rule default_weights)
  have dr: "(0.9::real) \<noteq> 0" by simp
  from schedule_card_first [OF first refl l dr, of g c] obtain i
    where i: "calculate_interval ?self ?s0 None = Inr i"
      and sc: "schedule_card ?self g st c =
               ebind (ebind (timedelta_days i) (datetime_add (c 0))) (\<lambda>due.
               Inr (\<lparr> state = (if g = 1 then ''learning'' else ''review''),
                      stability = ?s0,
                      difficulty = max 1 (min 10 (w ?self ! 4 - w ?self ! 5 * (of_int g - 3))),
                      retrievability = get (cs_retrievability st) 1,
                      interval = i,
                      due_date = due,
                      reps = get (cs_reps st) 0 + 1,
                      lapses = (if g = 1 then get (cs_lapses st) 0 + 1 else get (cs_lapses st) 0),
                      last_review = c 1 \<rparr>, \<lambda>n. c (Suc (Suc n))))"
    by blast
  have iv: "i = ?s0"
    using i unfolding calc_interval_retention_default
    by (auto simp add: w_FSRS_init DEFAULT_PARAMS_nth)
  have ib: "0 \<le> i" "i \<le> 54100"
    unfolding iv by (simp_all add: w_FSRS_init DEFAULT_PARAMS_nth)
  show ?thesis
    unfolding sc due_bind_in_range [OF ib c0]
    by (simp add: iv w_FSRS_init DEFAULT_PARAMS_nth)
qed

text \<open>
  The default scheduler returns a state whenever the prior stability is at most 100, the
  difficulty is in \<open>[1, 10]\<close> and the clock is at most 3590000 days after \<^verbatim>\<open>datetime.min\<close>
  (a date of the year 9830).
\<close>

lemma schedule_card_default_Inr:
  assumes s: "0 \<le> get (cs_stability st) 0" "get (cs_stability st) 0 \<le> 100"
    and d: "1 \<le> get (cs_difficulty st) 5" "get (cs_difficulty st) 5 \<le> 10"
    and c0: "0 \<le> c 0" "c 0 \<le> 3590000 * 86400"
    and c1: "0 \<le> c 1" "c 1 \<le> 3590000 * 86400"
  shows "\<exists>sch rest. schedule_card (FSRS_init None 0.9) g st c = Inr (sch, rest)"
proof (cases "get (cs_state st) ''new'' = ''new'' \<or> get (cs_reps st) 0 = 0")
  case True
  from schedule_card_first_default [where c = c and g = g, OF True c0]
  show ?thesis by (cases "schedule_card (FSRS_init None 0.9) g st c") auto
next
  case False
  let ?self = "FSRS_init None 0.9"
  from False have later: "get (cs_state st) ''new'' \<noteq> ''new''" "get (cs_reps st) 0 \<noteq> 0"
    by simp_all
  have dr: "(0.9::real) \<noteq> 0" by simp
  have dpos: "0 < get (cs_difficulty st) 5" and spos: "- 1 < get (cs_stability st) 0"
    using s d by simp_all
  from schedule_card_later [OF later refl default_weights(1) dr dpos spos, of g c]
  obtain sch0 rest now where
    sc: "schedule_card ?self g st c =
             ebind (ebind (timedelta_days (interval sch0)) (datetime_add now))
               (\<lambda>due. Inr (sch0 \<lparr> due_date := due \<rparr>, rest))"
    and now: "now = c 0 \<or> now = c 1"
    and ns: "next_stability ?self (get (cs_stability st) 0) (get (cs_difficulty st) 5)
                (retrievability sch0) g (g = 1) = Inr (stability sch0)"
    and rb: "0 \<le> retrievability sch0" "retrievability sch0 \<le> 1"
    and iv: "calculate_interval ?self (stability sch0) None = Inr (interval sch0)"
    and ib: "0.1 \<le> interval sch0"
    by blast
  from next_stability_bound [OF default_weights s d rb ns]
  have sb: "stability sch0 \<le> 54100" .
  have "interval sch0 = max 0.1 (stability sch0)"
    using iv unfolding calc_interval_retention_default by simp
  with sb have i2: "interval sch0 \<le> 54100" by simp
  from ib have i1: "0 \<le> interval sch0" by simp
  from now c0 c1 have n: "0 \<le> now" "now \<le> 3590000 * 86400" by auto
  show ?thesis unfolding sc due_bind_in_range [OF i1 i2 n] by blast
qed

lemma exp_4_le: "exp (4::real) \<le> 81"
proof -
  have "exp (4::real) = exp 2 * exp 2" by (simp add: exp_add [symmetric])
  also have "\<dots> \<le> 9 * 9" by (intro mult_mono exp_2_le) simp_all
  finally show ?thesis by simp
qed

text \<open>
  The raw lapse stability of the default weights at stability 99, difficulty 5 and
  retrievability 0.5 lies strictly between the floor 0.1 and the prior stability.
\<close>

lemma lapse_raw_default_bounds:
  "(0.1::real) < 2.0063 * 5 powr (- 0.2272) * (100 powr 0.2281 - 1) * exp (0.9221 * (1 - 0.5))"
  "2.0063 * 5 powr (- 0.2272) * (100 powr 0.2281 - 1) * exp (0.9221 * (1 - 0.5)) < (99::real)"
proof -
  define a :: real where "a = 5 powr (- 0.2272)"
  define p :: real where "p = 100 powr 0.2281"
  define c :: real where "c = exp (0.9221 * (1 - 0.5))"
  define raw :: real where "raw = 2.0063 * a * (p - 1) * c"
  have "(5::real) powr (- 1) \<le> a" unfolding a_def by (intro powr_mono) simp_all
  then have a1: "1 / 5 \<le> a" by (simp add: powr_minus)
  have "a \<le> (5::real) powr 0" unfolding a_def by (intro powr_mono) simp_all
  then have a2: "a \<le> 1" by simp
  have "exp (4::real) \<le> 100" using exp_4_le by linarith
  then have ln100: "4 \<le> ln (100::real)" by (simp add: ln_ge_iff)
  have "p = exp (0.2281 * ln 100)" unfolding p_def by (simp add: powr_def)
  moreover have "1 + 0.2281 * ln 100 \<le> exp (0.2281 * ln (100::real))"
    by (rule exp_ge_add_one_self)
  ultimately have "1 + 0.2281 * ln 100 \<le> p" by simp
  with ln100 have p1: "0.9124 \<le> p - 1" by simp
  have "p \<le> (100::real) powr (1 / 2)" unfolding p_def by (intro powr_mono) simp_all
  also have "(100::real) powr (1 / 2) = (10 powr 2) powr (1 / 2)" by simp
  also have "\<dots> = 10" by (simp only: powr_powr) simp
  finally have p2: "p - 1 \<le> 9" by simp
  have c1: "1 \<le> c" unfolding c_def by simp
  have "c \<le> exp 1" unfolding c_def by simp
  then have c2: "c \<le> 3" using exp_le by linarith
  have l1: "0 \<le> (2.0063::real) * (1 / 5)" "2.0063 * (1 / 5) \<le> 2.0063 * a" using a1 by simp_all
  have u1: "0 \<le> 2.0063 * a" "2.0063 * a \<le> 2.0063 * 1" using a1 a2 by simp_all
  have p0: "0 \<le> p - 1" "(0::real) \<le> 0.9124" using p1 by simp_all
  have one: "(0::real) \<le> 1" by simp
  have c0: "0 \<le> c" using c1 by simp
  note l2 = mult_bounds [OF l1 p0(2) p1]
  note l3 = mult_bounds [OF l2 one c1]
  note u2 = mult_bounds [OF u1 p0(1) p2]
  note u3 = mult_bounds [OF u2 c0 c2]
  have lo: "2.0063 * (1 / 5) * 0.9124 * 1 \<le> raw" unfolding raw_def by (rule l3(2))
  have hi: "raw \<le> 2.0063 * 1 * 9 * 3" unfolding raw_def by (rule u3(2))
  from lo have "0.1 < raw" by simp
  then show "(0.1::real) < 2.0063 * 5 powr (- 0.2272) * (100 powr 0.2281 - 1)
      * exp (0.9221 * (1 - 0.5))"
    by (simp only: raw_def a_def p_def c_def)
  from hi have "raw < 99" by simp
  then show "2.0063 * 5 powr (- 0.2272) * (100 powr 0.2281 - 1)
      * exp (0.9221 * (1 - 0.5)) < (99::real)"
    by (simp only: raw_def a_def p_def c_def)
qed

section \<open>The claims\<close>

text \<open>
  C1, as the code has it. The claim as stated fails: on a card with a review history a lapse
  returns \<open>min s (max 0.1 _)\<close>, which is the prior stability \<open>s\<close> itself when \<open>s < 0.1\<close>; and
  on a first review the retrievability is the caller's value, passed through. The first
  input is a reviewed card with stability 0 graded Again, whose new stability is 0; the
  second a new card that carries retrievability 2, returned as 2.
\<close>

theorem schedule_card_bounds_counterexample:
  "map_sum id (stability \<circ> fst)
     (schedule_card (FSRS_init None 0.9) 1
        \<lparr> cs_state = Some ''review'', cs_stability = Some 0, cs_difficulty = Some 5,
          cs_retrievability = Some 1, cs_last_review = None, cs_reps = Some 1,
          cs_lapses = Some 0 \<rparr> real) = Inr 0
   \<and> map_sum id (retrievability \<circ> fst)
     (schedule_card (FSRS_init None 0.9) 3
        \<lparr> cs_state = Some ''new'', cs_stability = Some 0, cs_difficulty = Some 5,
          cs_retrievability = Some 2, cs_last_review = None, cs_reps = Some 0,
          cs_lapses = Some 0 \<rparr> real) = Inr 2"
proof -
  let ?st1 = "\<lparr> cs_state = Some ''review'', cs_stability = Some 0, cs_difficulty = Some 5,
          cs_retrievability = Some 1, cs_last_review = None, cs_reps = Some 1,
          cs_lapses = Some 0 \<rparr>"
  let ?st2 = "\<lparr> cs_state = Some ''new'', cs_stability = Some 0, cs_difficulty = Some 5,
          cs_retrievability = Some 2, cs_last_review = None, cs_reps = Some 0,
          cs_lapses = Some 0 \<rparr>"
  have l: "length (w (FSRS_init None 0.9)) = 21" by (rule default_weights)
  have ns: "next_stability (FSRS_init None 0.9) (get (cs_stability ?st1) 0)
              (get (cs_difficulty ?st1) 5) 1 1 (1 = (1::int)) = Inr 0"
    using next_stability_lapse_Inr [OF l, of 5 0 True 1 1] by (simp add: get_def)
  obtain nd where nd: "next_difficulty (FSRS_init None 0.9) (get (cs_difficulty ?st1) 5) 1 = Inr nd"
    using next_difficulty_Inr [OF l] by blast
  have iv: "calculate_interval (FSRS_init None 0.9) 0 None = Inr 0.1"
    by (simp add: calc_interval_retention_default)
  have due: "ebind (timedelta_days 0.1) (datetime_add (real 0)) = Inr (real 0 + 0.1 * 86400)"
    by (rule due_date_in_range) simp_all
  have "schedule_card (FSRS_init None 0.9) 1 ?st1 real =
           ebind (ebind (timedelta_days 0.1) (datetime_add (real 0))) (\<lambda>due.
             Inr (\<lparr> state = (if (1::int) = 1 then ''relearning'' else ''review''),
                    stability = 0, difficulty = nd, retrievability = 1, interval = 0.1,
                    due_date = due,
                    reps = get (cs_reps ?st1) 0 + 1,
                    lapses = (if (1::int) = 1 then get (cs_lapses ?st1) 0 + 1
                              else get (cs_lapses ?st1) 0),
                    last_review = real 1 \<rparr>, \<lambda>n. real (Suc (Suc n))))"
    by (rule schedule_card_later_None [OF _ _ _ nd ns iv]) (simp_all add: get_def)
  then have a: "map_sum id (stability \<circ> fst) (schedule_card (FSRS_init None 0.9) 1 ?st1 real) = Inr 0"
    by (simp only: due ebind_Inr) simp
  have "map_sum id (retrievability \<circ> fst) (schedule_card (FSRS_init None 0.9) 3 ?st2 real)
          = map_sum id retrievability (map_sum id fst (schedule_card (FSRS_init None 0.9) 3 ?st2 real))"
    by (simp add: sum.map_comp)
  also have "\<dots> = Inr 2"
    by (subst schedule_card_first_default) (simp_all add: get_def)
  finally have b: "map_sum id (retrievability \<circ> fst)
      (schedule_card (FSRS_init None 0.9) 3 ?st2 real) = Inr 2" .
  from a b show ?thesis ..
qed

text \<open>
  C1, amended. Take a scheduler with 21 weights whose initial stabilities \<open>w0 .. w3\<close> are at
  least 0.1 and whose desired retention is not 0, a grade in \<open>{1, 2, 3, 4}\<close>, and a prior state
  with stability \<open>\<ge> 0\<close> and difficulty in \<open>[1, 10]\<close>, whose retrievability is in \<open>[0, 1]\<close> if
  the review is a first review, and whose stability is at least 0.1 if the card has a review
  history and is graded Again. Then \<open>schedule_card\<close> either raises \<^verbatim>\<open>OverflowError\<close>, the due
  date being out of range, or returns a state with difficulty in \<open>[1, 10]\<close>, stability
  \<open>\<ge> 0.1\<close>, interval \<open>\<ge> 0.1\<close>, retrievability in \<open>[0, 1]\<close>, and \<open>reps\<close> and \<open>lapses\<close> not below
  their prior values. The repository's scheduler \<^verbatim>\<open>FSRS()\<close> (default weights, retention 0.9)
  returns a state whenever moreover the prior stability is at most 100 and the clock reads
  at most 3590000 days after \<^verbatim>\<open>datetime.min\<close>, a date of the year 9830.
\<close>

theorem schedule_card_bounds:
  assumes cfg: "self = FSRS_init params dr" and len: "length (w self) = 21" and dr: "dr \<noteq> 0"
    and w0: "0.1 \<le> w self ! 0" and w1: "0.1 \<le> w self ! 1"
    and w2: "0.1 \<le> w self ! 2" and w3: "0.1 \<le> w self ! 3"
    and g: "g \<in> {1, 2, 3, 4}"
    and s: "0 \<le> get (cs_stability st) 0"
    and d: "1 \<le> get (cs_difficulty st) 5" "get (cs_difficulty st) 5 \<le> 10"
    and r: "get (cs_state st) ''new'' = ''new'' \<or> get (cs_reps st) 0 = 0 \<longrightarrow>
              0 \<le> get (cs_retrievability st) 1 \<and> get (cs_retrievability st) 1 \<le> 1"
    and s1: "get (cs_state st) ''new'' \<noteq> ''new'' \<and> get (cs_reps st) 0 \<noteq> 0 \<and> g = 1 \<longrightarrow>
              0.1 \<le> get (cs_stability st) 0"
  shows "(schedule_card self g st clk = Inl OverflowError
          \<or> (\<exists>sch clk'. schedule_card self g st clk = Inr (sch, clk')
                \<and> 1 \<le> difficulty sch \<and> difficulty sch \<le> 10
                \<and> 0.1 \<le> stability sch
                \<and> 0.1 \<le> interval sch
                \<and> 0 \<le> retrievability sch \<and> retrievability sch \<le> 1
                \<and> get (cs_reps st) 0 \<le> reps sch
                \<and> get (cs_lapses st) 0 \<le> lapses sch))
       \<and> (params = None \<and> dr = 0.9 \<and> get (cs_stability st) 0 \<le> 100
            \<and> 0 \<le> clk 0 \<and> clk 0 \<le> 3590000 * 86400
            \<and> 0 \<le> clk 1 \<and> clk 1 \<le> 3590000 * 86400 \<longrightarrow>
            (\<exists>sch clk'. schedule_card self g st clk = Inr (sch, clk')))"
proof (rule conjI)
  show "params = None \<and> dr = 0.9 \<and> get (cs_stability st) 0 \<le> 100
            \<and> 0 \<le> clk 0 \<and> clk 0 \<le> 3590000 * 86400
            \<and> 0 \<le> clk 1 \<and> clk 1 \<le> 3590000 * 86400 \<longrightarrow>
            (\<exists>sch clk'. schedule_card self g st clk = Inr (sch, clk'))"
  proof
    assume a: "params = None \<and> dr = 0.9 \<and> get (cs_stability st) 0 \<le> 100
            \<and> 0 \<le> clk 0 \<and> clk 0 \<le> 3590000 * 86400
            \<and> 0 \<le> clk 1 \<and> clk 1 \<le> 3590000 * 86400"
    then have "params = None" "dr = 0.9" by blast+
    then have self: "self = FSRS_init None 0.9" using cfg by (simp only:)
    from a have "get (cs_stability st) 0 \<le> 100" "0 \<le> clk 0" "clk 0 \<le> 3590000 * 86400"
      "0 \<le> clk 1" "clk 1 \<le> 3590000 * 86400" by blast+
    from schedule_card_default_Inr [OF s this(1) d this(2-5), of g]
    show "\<exists>sch clk'. schedule_card self g st clk = Inr (sch, clk')" unfolding self .
  qed
next
  show "schedule_card self g st clk = Inl OverflowError
          \<or> (\<exists>sch clk'. schedule_card self g st clk = Inr (sch, clk')
                \<and> 1 \<le> difficulty sch \<and> difficulty sch \<le> 10
                \<and> 0.1 \<le> stability sch
                \<and> 0.1 \<le> interval sch
                \<and> 0 \<le> retrievability sch \<and> retrievability sch \<le> 1
                \<and> get (cs_reps st) 0 \<le> reps sch
                \<and> get (cs_lapses st) 0 \<le> lapses sch)"
  proof (cases "get (cs_state st) ''new'' = ''new'' \<or> get (cs_reps st) 0 = 0")
    case True
    let ?s0 = "if g = 1 then w self ! 0 else if g = 2 then w self ! 1
               else if g = 3 then w self ! 2 else w self ! 3"
    from schedule_card_first [OF True cfg len dr, of g clk] obtain i where
      ib: "0.1 \<le> i"
      and sc: "schedule_card self g st clk =
               ebind (ebind (timedelta_days i) (datetime_add (clk 0))) (\<lambda>due.
               Inr (\<lparr> state = (if g = 1 then ''learning'' else ''review''),
                      stability = ?s0,
                      difficulty = max 1 (min 10 (w self ! 4 - w self ! 5 * (of_int g - 3))),
                      retrievability = get (cs_retrievability st) 1,
                      interval = i,
                      due_date = due,
                      reps = get (cs_reps st) 0 + 1,
                      lapses = (if g = 1 then get (cs_lapses st) 0 + 1 else get (cs_lapses st) 0),
                      last_review = clk 1 \<rparr>, \<lambda>n. clk (Suc (Suc n))))"
      by blast
    from r True have rr: "0 \<le> get (cs_retrievability st) 1" "get (cs_retrievability st) 1 \<le> 1"
      by simp_all
    have sb: "0.1 \<le> ?s0" using w0 w1 w2 w3 by simp
    from due_date_cases [of i "clk 0"] show ?thesis
      unfolding sc using ib rr sb by (auto simp add: ebind_Inr ebind_Inl)
  next
    case False
    let ?s = "get (cs_stability st) 0" and ?d = "get (cs_difficulty st) 5"
    from False have later: "get (cs_state st) ''new'' \<noteq> ''new''" "get (cs_reps st) 0 \<noteq> 0"
      by simp_all
    have dpos: "0 < ?d" using d by simp
    have spos: "- 1 < ?s" using s by simp
    from schedule_card_later [OF later cfg len dr dpos spos, of g clk]
    obtain sch0 rest now where
      sc: "schedule_card self g st clk =
             ebind (ebind (timedelta_days (interval sch0)) (datetime_add now))
               (\<lambda>due. Inr (sch0 \<lparr> due_date := due \<rparr>, rest))"
      and ns: "next_stability self ?s ?d (retrievability sch0) g (g = 1) = Inr (stability sch0)"
      and nd: "next_difficulty self ?d g = Inr (difficulty sch0)"
      and rb: "0 \<le> retrievability sch0" "retrievability sch0 \<le> 1"
      and ib: "0.1 \<le> interval sch0"
      and rp: "reps sch0 = get (cs_reps st) 0 + 1"
      and lp: "lapses sch0 = (if g = 1 then get (cs_lapses st) 0 + 1 else get (cs_lapses st) 0)"
      by blast
    have db: "1 \<le> difficulty sch0 \<and> difficulty sch0 \<le> 10"
      using nd unfolding next_difficulty_Inr [OF len] by auto
    have sb: "0.1 \<le> stability sch0"
    proof (cases "g = 1")
      case True
      with s1 later have big: "0.1 \<le> ?s" by simp
      have lapse: "(g = 1) \<or> g = 1" using True by simp
      from ns big show ?thesis
        unfolding next_stability_lapse_Inr [OF len dpos spos lapse] by auto
    next
      case False
      then have nl: "\<not> (g = 1)" by simp
      from ns show ?thesis
        unfolding next_stability_success_Inr [OF len nl False] by auto
    qed
    from due_date_cases [of "interval sch0" now] show ?thesis
      unfolding sc using db sb ib rb rp lp by (auto simp add: ebind_Inr ebind_Inl)
  qed
qed

theorem schedule_card_bounds_witness:
  "\<exists>sch clk'. schedule_card (FSRS_init None 0.9) 1
       \<lparr> cs_state = Some ''review'', cs_stability = Some 2, cs_difficulty = Some 5,
         cs_retrievability = Some 1, cs_last_review = Some 0, cs_reps = Some 1,
         cs_lapses = Some 0 \<rparr> real = Inr (sch, clk')
     \<and> 1 \<le> difficulty sch \<and> difficulty sch \<le> 10 \<and> 0.1 \<le> stability sch
     \<and> 0.1 \<le> interval sch \<and> 0 \<le> retrievability sch \<and> retrievability sch \<le> 1
     \<and> 1 \<le> reps sch \<and> 0 \<le> lapses sch"
proof -
  have l: "length (w (FSRS_init None 0.9)) = 21" by (simp add: w_FSRS_init length_DEFAULT_PARAMS)
  have g: "(1::int) \<in> {1, 2, 3, 4}" by simp
  have d: "(0.9::real) \<noteq> 0" by simp
  have ws: "0.1 \<le> w (FSRS_init None 0.9) ! 0" "0.1 \<le> w (FSRS_init None 0.9) ! 1"
    "0.1 \<le> w (FSRS_init None 0.9) ! 2" "0.1 \<le> w (FSRS_init None 0.9) ! 3"
    by (simp_all add: w_FSRS_init DEFAULT_PARAMS_nth)
  show ?thesis
    using schedule_card_bounds [OF refl l d ws g, of
        "\<lparr> cs_state = Some ''review'', cs_stability = Some 2, cs_difficulty = Some 5,
           cs_retrievability = Some 1, cs_last_review = Some 0, cs_reps = Some 1,
           cs_lapses = Some 0 \<rparr>" real]
    by (auto simp add: get_def)
qed

text \<open>
  C2, as the code has it. \<open>schedule_card\<close> checks no grade: for the grades 0 and 5 on a new
  card it returns a state (the \<open>else\<close> branches treat both like Easy for the stability and
  like Good for the stage), and raises nothing.
\<close>

theorem schedule_card_no_grade_check_counterexample:
  "map_sum id fst
     (schedule_card (FSRS_init None 0.9) 0
        \<lparr> cs_state = Some ''new'', cs_stability = Some 0, cs_difficulty = Some 5,
          cs_retrievability = Some 1, cs_last_review = None, cs_reps = Some 0,
          cs_lapses = Some 0 \<rparr> real)
     = Inr \<lparr> state = ''review'', stability = 15.4722, difficulty = 8.805, retrievability = 1,
             interval = 15.4722, due_date = 15.4722 * 86400, reps = 1, lapses = 0,
             last_review = 1 \<rparr>
   \<and> map_sum id fst
     (schedule_card (FSRS_init None 0.9) 5
        \<lparr> cs_state = Some ''new'', cs_stability = Some 0, cs_difficulty = Some 5,
          cs_retrievability = Some 1, cs_last_review = None, cs_reps = Some 0,
          cs_lapses = Some 0 \<rparr> real)
     = Inr \<lparr> state = ''review'', stability = 15.4722, difficulty = 6.147, retrievability = 1,
             interval = 15.4722, due_date = 15.4722 * 86400, reps = 1, lapses = 0,
             last_review = 1 \<rparr>"
proof -
  let ?st = "\<lparr> cs_state = Some ''new'', cs_stability = Some 0, cs_difficulty = Some 5,
          cs_retrievability = Some 1, cs_last_review = None, cs_reps = Some 0,
          cs_lapses = Some 0 \<rparr>"
  have first: "get (cs_state ?st) ''new'' = ''new'' \<or> get (cs_reps ?st) 0 = 0"
    by (simp add: get_def)
  have a: "0 \<le> real 0" "real 0 \<le> 3590000 * 86400" by simp_all
  show ?thesis
    unfolding schedule_card_first_default [where c = real, OF first a]
    by (simp add: get_def)
qed

text \<open>
  C2, amended. The grade is checked by the caller, \<open>review_card\<close>, for an existing card and a
  body that is a JSON object. When the value under \<^verbatim>\<open>grade\<close> equals none of 1, 2, 3, 4 (every
  integer outside \<open>{1, 2, 3, 4}\<close>, and an absent key), the route answers 400 with the message
  \<^verbatim>\<open>Invalid grade. Must be 1-4\<close> whatever the scheduler and the clock are (the scheduler is
  not called) and leaves the database as it was. When the body is not an object,
  \<^verbatim>\<open>data.get\<close> raises and the answer is 500. For a grade in \<open>{1, 2, 3, 4}\<close> the answer is
  never 400: it is 500 with the database unchanged when \<open>schedule_card\<close> raises, and otherwise
  the card with the scheduler's state, stage, stability, difficulty, retrievability,
  interval, due date, counters and \<open>last_review\<close> written into it, and the review that records
  the values before and after, both stored. With the repository's scheduler \<^verbatim>\<open>FSRS()\<close>, a
  card with stability in \<open>[0, 100]\<close> and difficulty in \<open>[1, 10]\<close>, and a clock of at most
  3590000 days after \<^verbatim>\<open>datetime.min\<close>, the scheduler does not raise.
\<close>

theorem review_card_rejects_invalid_grade:
  assumes card: "cards db card_id = Some c"
    and cst: "cst = \<lparr> cs_state = Some (card_state c), cs_stability = Some (card_stability c),
                      cs_difficulty = Some (card_difficulty c),
                      cs_retrievability = Some (card_retrievability c),
                      cs_last_review = card_last_review c, cs_reps = Some (card_reps c),
                      cs_lapses = Some (card_lapses c) \<rparr>"
  shows "(json_get data ''grade'' = Inr v \<and> grade_of v = None \<longrightarrow>
            review_card sched db clk card_id data = (BadRequest ''Invalid grade. Must be 1-4'', db))
       \<and> (n \<notin> {1, 2, 3, 4} \<longrightarrow> grade_of (JInt n) = None)
       \<and> (n \<in> {1, 2, 3, 4} \<longrightarrow> grade_of (JInt n) = Some n)
       \<and> grade_of JNull = None
       \<and> (json_get data ''grade'' = Inl e \<longrightarrow>
            review_card sched db clk card_id data = (InternalServerError e, db))
       \<and> (json_get data ''grade'' = Inr v \<and> grade_of v = Some g \<longrightarrow>
            fst (review_card sched db clk card_id data) \<noteq> BadRequest msg
          \<and> (schedule_card sched g cst clk = Inl e \<longrightarrow>
                review_card sched db clk card_id data = (InternalServerError e, db))
          \<and> (schedule_card sched g cst clk = Inr (sch, clk1) \<longrightarrow>
                (\<exists>c1 rv. review_card sched db clk card_id data =
                    (Ok c1 rv, db \<lparr> cards := (cards db)(card_id \<mapsto> c1),
                                     reviews := reviews db @ [rv] \<rparr>)
                  \<and> c1 = c \<lparr> card_state := state sch, card_stability := stability sch,
                              card_difficulty := difficulty sch,
                              card_retrievability := retrievability sch,
                              card_interval := interval sch, card_due_date := due_date sch,
                              card_reps := reps sch, card_lapses := lapses sch,
                              card_last_review := Some (last_review sch) \<rparr>
                  \<and> rv = \<lparr> rv_card_id = card_id, rv_grade = g,
                            rv_state_before = card_state c,
                            rv_difficulty_before = card_difficulty c,
                            rv_stability_before = card_stability c,
                            rv_retrievability_before = card_retrievability c,
                            rv_difficulty_after = difficulty sch,
                            rv_stability_after = stability sch,
                            rv_interval_after = interval sch,
                            rv_reviewed_at = clk1 0 \<rparr>))
          \<and> (sched = FSRS_init None 0.9
              \<and> 0 \<le> card_stability c \<and> card_stability c \<le> 100
              \<and> 1 \<le> card_difficulty c \<and> card_difficulty c \<le> 10
              \<and> 0 \<le> clk 0 \<and> clk 0 \<le> 3590000 * 86400
              \<and> 0 \<le> clk 1 \<and> clk 1 \<le> 3590000 * 86400 \<longrightarrow>
                (\<exists>c1 rv db1. review_card sched db clk card_id data = (Ok c1 rv, db1))))"
proof (intro conjI impI)
  assume "json_get data ''grade'' = Inr v \<and> grade_of v = None"
  then show "review_card sched db clk card_id data = (BadRequest ''Invalid grade. Must be 1-4'', db)"
    using card by (simp add: review_card_def)
next
  assume "n \<notin> {1, 2, 3, 4}"
  then show "grade_of (JInt n) = None" by (simp add: grade_of_def)
next
  assume "n \<in> {1, 2, 3, 4}"
  then show "grade_of (JInt n) = Some n" by (simp add: grade_of_def)
next
  show "grade_of JNull = None" by (simp add: grade_of_def)
next
  assume "json_get data ''grade'' = Inl e"
  then show "review_card sched db clk card_id data = (InternalServerError e, db)"
    using card by (simp add: review_card_def)
next
  assume a: "json_get data ''grade'' = Inr v \<and> grade_of v = Some g"
  then show "fst (review_card sched db clk card_id data) \<noteq> BadRequest msg"
    using card by (auto simp add: review_card_def Let_def split: sum.splits prod.splits)
next
  assume a: "json_get data ''grade'' = Inr v \<and> grade_of v = Some g"
    and b: "schedule_card sched g cst clk = Inl e"
  then show "review_card sched db clk card_id data = (InternalServerError e, db)"
    using card unfolding cst by (simp add: review_card_def Let_def)
next
  assume a: "json_get data ''grade'' = Inr v \<and> grade_of v = Some g"
    and b: "schedule_card sched g cst clk = Inr (sch, clk1)"
  then show "\<exists>c1 rv. review_card sched db clk card_id data =
                    (Ok c1 rv, db \<lparr> cards := (cards db)(card_id \<mapsto> c1),
                                     reviews := reviews db @ [rv] \<rparr>)
                  \<and> c1 = c \<lparr> card_state := state sch, card_stability := stability sch,
                              card_difficulty := difficulty sch,
                              card_retrievability := retrievability sch,
                              card_interval := interval sch, card_due_date := due_date sch,
                              card_reps := reps sch, card_lapses := lapses sch,
                              card_last_review := Some (last_review sch) \<rparr>
                  \<and> rv = \<lparr> rv_card_id = card_id, rv_grade = g,
                            rv_state_before = card_state c,
                            rv_difficulty_before = card_difficulty c,
                            rv_stability_before = card_stability c,
                            rv_retrievability_before = card_retrievability c,
                            rv_difficulty_after = difficulty sch,
                            rv_stability_after = stability sch,
                            rv_interval_after = interval sch,
                            rv_reviewed_at = clk1 0 \<rparr>"
    using card unfolding cst by (simp add: review_card_def Let_def utcnow_def)
next
  assume a: "json_get data ''grade'' = Inr v \<and> grade_of v = Some g"
    and b: "sched = FSRS_init None 0.9
              \<and> 0 \<le> card_stability c \<and> card_stability c \<le> 100
              \<and> 1 \<le> card_difficulty c \<and> card_difficulty c \<le> 10
              \<and> 0 \<le> clk 0 \<and> clk 0 \<le> 3590000 * 86400
              \<and> 0 \<le> clk 1 \<and> clk 1 \<le> 3590000 * 86400"
  from b have sched: "sched = FSRS_init None 0.9" by blast
  from b have s: "0 \<le> get (cs_stability cst) 0" "get (cs_stability cst) 0 \<le> 100"
    and d: "1 \<le> get (cs_difficulty cst) 5" "get (cs_difficulty cst) 5 \<le> 10"
    unfolding cst by (simp_all add: get_def)
  from b have c0: "0 \<le> clk 0" "clk 0 \<le> 3590000 * 86400"
    and c1: "0 \<le> clk 1" "clk 1 \<le> 3590000 * 86400" by blast+
  from schedule_card_default_Inr [OF s d c0 c1, of g] obtain sch rest
    where sc: "schedule_card sched g cst clk = Inr (sch, rest)" unfolding sched by blast
  show "\<exists>c1 rv db1. review_card sched db clk card_id data = (Ok c1 rv, db1)"
    using card a sc unfolding cst by (simp add: review_card_def Let_def utcnow_def)
qed

theorem review_card_rejects_invalid_grade_witness:
  "review_card (FSRS_init None 0.9)
     \<lparr> cards = [0 \<mapsto> \<lparr> card_deck_id = 0, card_state = ''new'', card_difficulty = 5,
                        card_stability = 0, card_retrievability = 1, card_due_date = 0,
                        card_last_review = None, card_interval = 0, card_reps = 0,
                        card_lapses = 0 \<rparr>], reviews = [] \<rparr> real 0
     (JObject [(''grade'', JInt 5)])
   = (BadRequest ''Invalid grade. Must be 1-4'',
     \<lparr> cards = [0 \<mapsto> \<lparr> card_deck_id = 0, card_state = ''new'', card_difficulty = 5,
                        card_stability = 0, card_retrievability = 1, card_due_date = 0,
                        card_last_review = None, card_interval = 0, card_reps = 0,
                        card_lapses = 0 \<rparr>], reviews = [] \<rparr>)
   \<and> review_card (FSRS_init None 0.9)
     \<lparr> cards = [0 \<mapsto> \<lparr> card_deck_id = 0, card_state = ''new'', card_difficulty = 5,
                        card_stability = 0, card_retrievability = 1, card_due_date = 0,
                        card_last_review = None, card_interval = 0, card_reps = 0,
                        card_lapses = 0 \<rparr>], reviews = [] \<rparr> real 0 JNull
   = (InternalServerError AttributeError,
     \<lparr> cards = [0 \<mapsto> \<lparr> card_deck_id = 0, card_state = ''new'', card_difficulty = 5,
                        card_stability = 0, card_retrievability = 1, card_due_date = 0,
                        card_last_review = None, card_interval = 0, card_reps = 0,
                        card_lapses = 0 \<rparr>], reviews = [] \<rparr>)"
proof -
  let ?c = "\<lparr> card_deck_id = 0, card_state = ''new'', card_difficulty = 5,
                        card_stability = 0, card_retrievability = 1, card_due_date = 0,
                        card_last_review = None, card_interval = 0, card_reps = 0,
                        card_lapses = 0 \<rparr>"
  have h: "cards \<lparr> cards = [0 \<mapsto> ?c], reviews = [] \<rparr> (0::nat) = Some ?c" by simp
  have j: "json_get (JObject [(''grade'', JInt 5)]) ''grade'' = Inr (JInt 5)"
    "grade_of (JInt 5) = None" "json_get JNull ''grade'' = Inl AttributeError"
    by (simp_all add: json_get_def grade_of_def)
  show ?thesis
    using review_card_rejects_invalid_grade [OF h refl,
        of "JObject [(''grade'', JInt 5)]" "JInt 5" "FSRS_init None 0.9" real]
      review_card_rejects_invalid_grade [OF h refl,
        of JNull _ "FSRS_init None 0.9" real _ AttributeError] j
    by simp
qed

text \<open>
  C3, as the code has it. The claim as stated, for every difficulty, fails at difficulty 0:
  \<^verbatim>\<open>math.pow(0, -w12)\<close> raises \<^verbatim>\<open>ValueError\<close> and no stability is returned.
\<close>

theorem lapse_formula_counterexample:
  "next_stability (FSRS_init None 0.9) 1 0 1 1 False = Inl ValueError"
  by (simp add: next_stability_def index_def w_FSRS_init length_DEFAULT_PARAMS DEFAULT_PARAMS_nth
      ebind_Inr ebind_Inl py_pow_def)

text \<open>
  C3, amended. With grade 1 (Again), whatever the flag \<open>is_lapse\<close>, \<open>next_stability\<close> returns
  exactly \<open>min S (max 0.1 (w11 * D ^ (- w12) * ((S + 1) ^ w13 - 1) * e ^ (w10 * (1 - R))))\<close> for
  every positive difficulty \<open>D\<close>, every stability \<open>S\<close> above -1 and every \<open>R\<close> (so for every
  difficulty in \<open>[1, 10]\<close> and every stability \<open>\<ge> 0\<close>), and whatever \<open>S\<close>, \<open>D\<close> and \<open>R\<close> are, a
  value it returns is at most \<open>S\<close>. The witness is the default scheduler at \<open>S = 99\<close>, \<open>D = 5\<close>,
  \<open>R = 0.5\<close>, where neither the floor nor the prior stability decides the result.
\<close>

theorem lapse_never_increases_stability:
  assumes "length (w self) = 21"
  shows "(0 < D \<and> - 1 < S \<longrightarrow>
           next_stability self S D R 1 is_lapse =
             Inr (min S (max 0.1 (w self ! 11 * D powr (- (w self ! 12))
                                   * ((S + 1) powr (w self ! 13) - 1)
                                   * exp (w self ! 10 * (1 - R))))))
         \<and> (\<forall>v. next_stability self S D R 1 is_lapse = Inr v \<longrightarrow> v \<le> S)"
  using assms by (auto simp add: next_stability_lapse_Inr dest: next_stability_lapse_le)

theorem lapse_never_increases_stability_witness:
  "next_stability (FSRS_init None 0.9) 99 5 0.5 1 False =
     Inr (2.0063 * 5 powr (- 0.2272) * (100 powr 0.2281 - 1) * exp (0.9221 * (1 - 0.5)))
   \<and> (0.1::real) < 2.0063 * 5 powr (- 0.2272) * (100 powr 0.2281 - 1) * exp (0.9221 * (1 - 0.5))
   \<and> 2.0063 * 5 powr (- 0.2272) * (100 powr 0.2281 - 1) * exp (0.9221 * (1 - 0.5)) < (99::real)"
proof -
  let ?raw = "2.0063 * 5 powr (- 0.2272) * (100 powr 0.2281 - 1) * exp (0.9221 * (1 - 0.5)) :: real"
  have l: "length (w (FSRS_init None 0.9)) = 21" by (rule default_weights)
  have "next_stability (FSRS_init None 0.9) 99 5 0.5 1 False = Inr (min 99 (max 0.1 ?raw))"
    using lapse_never_increases_stability [OF l, of 5 99 "0.5" False]
    by (simp add: w_FSRS_init DEFAULT_PARAMS_nth)
  moreover have "min 99 (max 0.1 ?raw) = ?raw"
    using lapse_raw_default_bounds by linarith
  ultimately show ?thesis using lapse_raw_default_bounds by (simp only: simp_thms)
qed

text \<open>
  C4, as the code has it. The order of the grades depends on the weights, which the claim
  leaves open: with the default weights but an easy bonus \<open>w16 = 0\<close>, at stability 1,
  difficulty 5 and retrievability 0, Easy returns 1 and Good returns more.
\<close>

theorem success_order_counterexample:
  "next_stability (FSRS_init (Some (DEFAULT_PARAMS[16 := 0])) 0.9) 1 5 0 4 False = Inr 1
   \<and> next_stability (FSRS_init (Some (DEFAULT_PARAMS[16 := 0])) 0.9) 1 5 0 3 False
       = Inr (1 + exp 1.616 * 6 * (exp 0.9221 - 1))
   \<and> (1::real) < 1 + exp 1.616 * 6 * (exp 0.9221 - 1)"
proof -
  let ?self = "FSRS_init (Some (DEFAULT_PARAMS[16 := 0])) 0.9"
  have l: "length (w ?self) = 21" by (simp add: w_FSRS_init length_DEFAULT_PARAMS)
  have ws: "w ?self ! 8 = 1.616" "w ?self ! 9 = 0.1544" "w ?self ! 10 = 0.9221" "w ?self ! 16 = 0"
    by (simp_all add: w_FSRS_init DEFAULT_PARAMS_def)
  have pos: "(0::real) < exp 1.616 * 6 * (exp 0.9221 - 1)" by simp
  have e: "next_stability ?self 1 5 0 4 False = Inr 1"
    by (subst next_stability_success_Inr [OF l]) (simp_all add: ws)
  have "next_stability ?self 1 5 0 3 False = Inr (max 0.1 (1 + exp 1.616 * 6 * (exp 0.9221 - 1)))"
    by (subst next_stability_success_Inr [OF l]) (simp_all add: ws)
  also have "max (0.1::real) (1 + exp 1.616 * 6 * (exp 0.9221 - 1))
      = 1 + exp 1.616 * 6 * (exp 0.9221 - 1)"
    using pos by linarith
  finally have g: "next_stability ?self 1 5 0 3 False = Inr (1 + exp 1.616 * 6 * (exp 0.9221 - 1))" .
  from pos have lt: "(1::real) < 1 + exp 1.616 * 6 * (exp 0.9221 - 1)" by linarith
  from e g lt show ?thesis by (simp only: simp_thms)
qed

text \<open>
  C4, amended. For a scheduler with 21 weights, \<open>w10 \<ge> 0\<close> and an easy bonus \<open>w16 \<ge> 1\<close> (the
  defaults are such), and for every stability \<open>S \<ge> 0\<close>, difficulty \<open>D\<close> in \<open>[1, 10]\<close> and
  retrievability \<open>R\<close> in \<open>[0, 1]\<close>: with the increment
  \<open>X = e ^ w8 * (11 - D) * f_S * (e ^ (w10 * (1 - R)) - 1)\<close>, where \<open>f_S\<close> is \<open>S ^ (- w9)\<close> for
  \<open>S > 0\<close> and 1 otherwise, the success branch returns \<open>max 0.1 (S * (1 + X * 0.5))\<close> for Hard,
  \<open>max 0.1 (S * (1 + X))\<close> for Good and \<open>max 0.1 (S * (1 + X * w16))\<close> for Easy, and
  Hard \<open>\<le>\<close> Good \<open>\<le>\<close> Easy. The Hard multiplier is the constant 0.5; \<open>w15\<close> does not occur. The
  witness is the default scheduler at \<open>S = 1\<close>, \<open>D = 5\<close>, \<open>R = 0\<close>, where the three results are
  strictly ordered.
\<close>

theorem success_stability_monotone_in_grade:
  assumes len: "length (w self) = 21" and w10: "0 \<le> w self ! 10" and w16: "1 \<le> w self ! 16"
    and S: "0 \<le> S" and D: "1 \<le> D" "D \<le> 10" and R: "0 \<le> R" "R \<le> 1"
  shows "let X = exp (w self ! 8) * (11 - D) * (if 0 < S then S powr (- (w self ! 9)) else 1)
                   * (exp (w self ! 10 * (1 - R)) - 1);
             hard = max 0.1 (S * (1 + X * 0.5));
             good = max 0.1 (S * (1 + X));
             easy = max 0.1 (S * (1 + X * (w self ! 16)))
         in next_stability self S D R 2 False = Inr hard
          \<and> next_stability self S D R 3 False = Inr good
          \<and> next_stability self S D R 4 False = Inr easy
          \<and> hard \<le> good \<and> good \<le> easy"
proof -
  define X where "X = exp (w self ! 8) * (11 - D) * (if 0 < S then S powr (- (w self ! 9)) else 1)
                   * (exp (w self ! 10 * (1 - R)) - 1)"
  have "0 \<le> w self ! 10 * (1 - R)" using w10 R by simp
  then have fr: "0 \<le> exp (w self ! 10 * (1 - R)) - 1" by simp
  have fs: "0 \<le> (if 0 < S then S powr (- (w self ! 9)) else 1)" by simp
  have fd: "0 \<le> 11 - D" using D by simp
  have X0: "0 \<le> X" unfolding X_def
    by (intro mult_nonneg_nonneg fr fs fd) simp
  have hg: "S * (1 + X * 0.5) \<le> S * (1 + X)"
    using X0 S by (intro mult_left_mono) simp_all
  have "X * 1 \<le> X * (w self ! 16)" using X0 w16 by (intro mult_left_mono) simp_all
  then have ge: "S * (1 + X) \<le> S * (1 + X * (w self ! 16))"
    using S by (intro mult_left_mono) simp_all
  have h: "next_stability self S D R 2 False = Inr (max 0.1 (S * (1 + X * 0.5)))"
    using next_stability_success_Inr [OF len, of False 2 S D R] by (simp add: X_def)
  have g: "next_stability self S D R 3 False = Inr (max 0.1 (S * (1 + X)))"
    using next_stability_success_Inr [OF len, of False 3 S D R] by (simp add: X_def)
  have e: "next_stability self S D R 4 False = Inr (max 0.1 (S * (1 + X * (w self ! 16))))"
    using next_stability_success_Inr [OF len, of False 4 S D R] by (simp add: X_def)
  have m1: "max 0.1 (S * (1 + X * 0.5)) \<le> max 0.1 (S * (1 + X))" using hg by linarith
  have m2: "max 0.1 (S * (1 + X)) \<le> max 0.1 (S * (1 + X * (w self ! 16)))" using ge by linarith
  show ?thesis
    unfolding Let_def X_def [symmetric] using h g e m1 m2 by simp
qed

theorem success_stability_monotone_in_grade_witness:
  "next_stability (FSRS_init None 0.9) 1 5 0 2 False
     = Inr (1 + exp 1.616 * 6 * (exp 0.9221 - 1) * 0.5)
   \<and> next_stability (FSRS_init None 0.9) 1 5 0 3 False
     = Inr (1 + exp 1.616 * 6 * (exp 0.9221 - 1))
   \<and> next_stability (FSRS_init None 0.9) 1 5 0 4 False
     = Inr (1 + exp 1.616 * 6 * (exp 0.9221 - 1) * 2.9469)
   \<and> (1::real) + exp 1.616 * 6 * (exp 0.9221 - 1) * 0.5 < 1 + exp 1.616 * 6 * (exp 0.9221 - 1)
   \<and> (1::real) + exp 1.616 * 6 * (exp 0.9221 - 1) < 1 + exp 1.616 * 6 * (exp 0.9221 - 1) * 2.9469"
proof -
  define Y :: real where "Y = exp 1.616 * 6 * (exp 0.9221 - 1)"
  have XY: "exp 1.616 * (11 - 5) * 1 powr (- 0.1544) * (exp (0.9221 * (1 - 0)) - 1) = Y"
    unfolding Y_def by simp
  have pos: "0 < Y" unfolding Y_def by simp
  have l: "length (w (FSRS_init None 0.9)) = 21" by (rule default_weights)
  have a: "0 \<le> w (FSRS_init None 0.9) ! 10" by (rule default_weights)
  have b: "1 \<le> w (FSRS_init None 0.9) ! 16" by (simp add: w_FSRS_init DEFAULT_PARAMS_nth)
  have h: "(0::real) \<le> 1" "(1::real) \<le> 5" "(5::real) \<le> 10" "(0::real) \<le> 0" "(0::real) \<le> 1"
    by simp_all
  have ws: "w (FSRS_init None 0.9) ! 8 = 1.616" "w (FSRS_init None 0.9) ! 9 = 0.1544"
    "w (FSRS_init None 0.9) ! 10 = 0.9221" "w (FSRS_init None 0.9) ! 16 = 2.9469"
    by (simp_all add: w_FSRS_init DEFAULT_PARAMS_nth)
  have one: "(0::real) < 1" by simp
  have m: "max 0.1 (1 * (1 + Y * 0.5)) = 1 + Y * 0.5" "max 0.1 (1 * (1 + Y)) = 1 + Y"
    "max 0.1 (1 * (1 + Y * 2.9469)) = 1 + Y * 2.9469"
    using pos by simp_all
  note t = success_stability_monotone_in_grade [OF l a b h, unfolded Let_def ws if_P [OF one] XY m]
  have lt: "1 + Y * 0.5 < 1 + Y" "1 + Y < 1 + Y * 2.9469" using pos by simp_all
  from t lt show ?thesis unfolding Y_def by (simp only: simp_thms)
qed

text \<open>
  C5. \<open>calculate_retrievability\<close> returns exactly 1 whenever the stability or the elapsed
  time is not positive, and otherwise \<open>(1 + FACTOR * (t / S) ^ (-0.5)) ^ (-0.5)\<close> clamped to
  \<open>[0, 1]\<close>, where \<open>FACTOR = 0.9 ^ (1 / (-0.5)) - 1\<close>; in particular it is 1 at elapsed time 0
  with stability 10, and at stability 0 for every elapsed time. It never raises.
\<close>

theorem calculate_retrievability_formula:
  "calculate_retrievability (FSRS_init params dr) t s =
     Inr (if s \<le> 0 \<or> t \<le> 0 then 1
          else max 0 (min 1 ((1 + FACTOR (FSRS_init params dr) * (t / s) powr (- 0.5)) powr (- 0.5))))
   \<and> FACTOR (FSRS_init params dr) = 0.9 powr (1 / (- 0.5)) - 1
   \<and> calculate_retrievability (FSRS_init params dr) 0 10 = Inr 1
   \<and> calculate_retrievability (FSRS_init params dr) t 0 = Inr 1"
  by (simp add: calc_retr_eq) (simp add: FSRS_init_def)

text \<open>
  C6. For a scheduler with 21 weights and a desired retention other than 0, every grade in
  \<open>{1, 2, 3, 4}\<close>, every prior state whose stage is \<^verbatim>\<open>new\<close> or whose \<open>reps\<close> is 0, and every
  clock: unless the due date is out of range and \<open>schedule_card\<close> raises \<^verbatim>\<open>OverflowError\<close>, it
  returns a state with stability \<open>init_stability g\<close> and difficulty \<open>init_difficulty g\<close>,
  interval \<open>calculate_interval\<close> of that stability, stage \<^verbatim>\<open>learning\<close> for Again and \<^verbatim>\<open>review\<close>
  otherwise, \<open>reps\<close> one more than before, and \<open>lapses\<close> one more on Again only. With the default
  weights, Good gives stability 3.1262 and difficulty 7.2102, and Again gives stability
  0.4072. The repository's scheduler \<^verbatim>\<open>FSRS()\<close> does not raise while the clock reads at most
  3590000 days after \<^verbatim>\<open>datetime.min\<close>.
\<close>

theorem first_review_initial_values:
  assumes cfg: "self = FSRS_init params dr" and len: "length (w self) = 21" and dr: "dr \<noteq> 0"
    and first: "get (cs_state st) ''new'' = ''new'' \<or> get (cs_reps st) 0 = 0"
    and g: "g \<in> {1, 2, 3, 4}"
  shows "(schedule_card self g st clk = Inl OverflowError
          \<or> (\<exists>sch clk'. schedule_card self g st clk = Inr (sch, clk')
                \<and> init_stability self g = Inr (stability sch)
                \<and> init_difficulty self g = Inr (difficulty sch)
                \<and> calculate_interval self (stability sch) None = Inr (interval sch)
                \<and> state sch = (if g = 1 then ''learning'' else ''review'')
                \<and> reps sch = get (cs_reps st) 0 + 1
                \<and> lapses sch = (if g = 1 then get (cs_lapses st) 0 + 1 else get (cs_lapses st) 0)
                \<and> (params = None \<and> g = 3 \<longrightarrow> stability sch = 3.1262 \<and> difficulty sch = 7.2102)
                \<and> (params = None \<and> g = 1 \<longrightarrow> stability sch = 0.4072)))
       \<and> (params = None \<and> dr = 0.9 \<and> 0 \<le> clk 0 \<and> clk 0 \<le> 3590000 * 86400 \<longrightarrow>
            schedule_card self g st clk \<noteq> Inl OverflowError)"
proof (rule conjI)
  let ?s0 = "if g = 1 then w self ! 0 else if g = 2 then w self ! 1
             else if g = 3 then w self ! 2 else w self ! 3"
  from schedule_card_first [OF first cfg len dr, of g clk] obtain i where
    i: "calculate_interval self ?s0 None = Inr i"
    and sc: "schedule_card self g st clk =
               ebind (ebind (timedelta_days i) (datetime_add (clk 0))) (\<lambda>due.
               Inr (\<lparr> state = (if g = 1 then ''learning'' else ''review''),
                      stability = ?s0,
                      difficulty = max 1 (min 10 (w self ! 4 - w self ! 5 * (of_int g - 3))),
                      retrievability = get (cs_retrievability st) 1,
                      interval = i,
                      due_date = due,
                      reps = get (cs_reps st) 0 + 1,
                      lapses = (if g = 1 then get (cs_lapses st) 0 + 1 else get (cs_lapses st) 0),
                      last_review = clk 1 \<rparr>, \<lambda>n. clk (Suc (Suc n))))"
    by blast
  have dflt: "params = None \<Longrightarrow> w self = DEFAULT_PARAMS" using cfg by (simp add: w_FSRS_init)
  from due_date_cases [of i "clk 0"]
  show "schedule_card self g st clk = Inl OverflowError
          \<or> (\<exists>sch clk'. schedule_card self g st clk = Inr (sch, clk')
                \<and> init_stability self g = Inr (stability sch)
                \<and> init_difficulty self g = Inr (difficulty sch)
                \<and> calculate_interval self (stability sch) None = Inr (interval sch)
                \<and> state sch = (if g = 1 then ''learning'' else ''review'')
                \<and> reps sch = get (cs_reps st) 0 + 1
                \<and> lapses sch = (if g = 1 then get (cs_lapses st) 0 + 1 else get (cs_lapses st) 0)
                \<and> (params = None \<and> g = 3 \<longrightarrow> stability sch = 3.1262 \<and> difficulty sch = 7.2102)
                \<and> (params = None \<and> g = 1 \<longrightarrow> stability sch = 0.4072))"
    unfolding sc using dflt i
    by (auto simp add: ebind_Inr ebind_Inl init_stability_Inr [OF len] init_difficulty_Inr [OF len]
        DEFAULT_PARAMS_nth split: if_splits)
next
  show "params = None \<and> dr = 0.9 \<and> 0 \<le> clk 0 \<and> clk 0 \<le> 3590000 * 86400 \<longrightarrow>
            schedule_card self g st clk \<noteq> Inl OverflowError"
  proof
    assume a: "params = None \<and> dr = 0.9 \<and> 0 \<le> clk 0 \<and> clk 0 \<le> 3590000 * 86400"
    then have "params = None" "dr = 0.9" by blast+
    then have self: "self = FSRS_init None 0.9" using cfg by (simp only:)
    from a have c0: "0 \<le> clk 0" "clk 0 \<le> 3590000 * 86400" by blast+
    from schedule_card_first_default [where c = clk and g = g, OF first c0]
    show "schedule_card self g st clk \<noteq> Inl OverflowError"
      unfolding self by (cases "schedule_card (FSRS_init None 0.9) g st clk") auto
  qed
qed

theorem first_review_initial_values_witness:
  "\<exists>sch clk'. schedule_card (FSRS_init None 0.9) 3
       \<lparr> cs_state = Some ''new'', cs_stability = Some 0, cs_difficulty = Some 5,
         cs_retrievability = Some 1, cs_last_review = None, cs_reps = Some 0,
         cs_lapses = Some 0 \<rparr> real = Inr (sch, clk')
     \<and> stability sch = 3.1262 \<and> difficulty sch = 7.2102 \<and> state sch = ''review''
     \<and> reps sch = 1 \<and> lapses sch = 0"
proof -
  have l: "length (w (FSRS_init None 0.9)) = 21" by (simp add: w_FSRS_init length_DEFAULT_PARAMS)
  have g: "(3::int) \<in> {1, 2, 3, 4}" by simp
  have d: "(0.9::real) \<noteq> 0" by simp
  show ?thesis
    using first_review_initial_values [OF refl l d _ g, of
        "\<lparr> cs_state = Some ''new'', cs_stability = Some 0, cs_difficulty = Some 5,
           cs_retrievability = Some 1, cs_last_review = None, cs_reps = Some 0,
           cs_lapses = Some 0 \<rparr>" real]
    by (auto simp add: get_def)
qed

text \<open>
  C7. For every difficulty \<open>d\<close> and grade \<open>g\<close> in \<open>{1, 2, 3, 4}\<close>, \<open>next_difficulty\<close> is the clamp
  to \<open>[1, 10]\<close> of \<open>0.5 * (d + delta * (10 - d) / 9) + 0.5 * w4\<close>, where \<open>delta\<close> is
  \<open>- w6 * (g - 3)\<close> for Again and Hard, \<open>- w7 * (g - 3)\<close> for Easy and 0 for Good. The
  scheduler has its 21 weights.
\<close>

theorem next_difficulty_formula:
  assumes "length (w self) = 21" and "g \<in> {1, 2, 3, 4}"
  shows "next_difficulty self d g =
     Inr (max 1 (min 10 (0.5 * (d + (if g = 1 \<or> g = 2 then - (w self ! 6) * (of_int g - 3)
                                     else if g = 4 then - (w self ! 7) * (of_int g - 3)
                                     else 0) * (10 - d) / 9) + 0.5 * (w self ! 4))))"
  using assms(1) by (rule next_difficulty_Inr)

theorem next_difficulty_formula_witness:
  "length (w (FSRS_init None 0.9)) = 21 \<and> (1::int) \<in> {1, 2, 3, 4} \<and>
   next_difficulty (FSRS_init None 0.9) 5 1 = Inr (301357 / 45000)"
proof -
  have l: "length (w (FSRS_init None 0.9)) = 21" by (simp add: w_FSRS_init length_DEFAULT_PARAMS)
  have g: "(1::int) \<in> {1, 2, 3, 4}" by simp
  show ?thesis using next_difficulty_formula [OF l g, of 5] l
    by (simp add: w_FSRS_init DEFAULT_PARAMS_def)
qed

text \<open>
  C8, as the code has it. \<open>schedule_card\<close> takes no time: it reads the clock itself, so two
  runs on the same grade and the same prior state return different states when the clock
  differs. Here the clock reads 0, 1, 2, ... seconds in one run and 1, 2, 3, ... in the other.
\<close>

theorem schedule_card_reads_clock_counterexample:
  "map_sum id fst
     (schedule_card (FSRS_init None 0.9) 3
        \<lparr> cs_state = Some ''new'', cs_stability = Some 0, cs_difficulty = Some 5,
          cs_retrievability = Some 1, cs_last_review = None, cs_reps = Some 0,
          cs_lapses = Some 0 \<rparr> real)
   \<noteq> map_sum id fst
     (schedule_card (FSRS_init None 0.9) 3
        \<lparr> cs_state = Some ''new'', cs_stability = Some 0, cs_difficulty = Some 5,
          cs_retrievability = Some 1, cs_last_review = None, cs_reps = Some 0,
          cs_lapses = Some 0 \<rparr> (real \<circ> Suc))"
proof -
  let ?st = "\<lparr> cs_state = Some ''new'', cs_stability = Some 0, cs_difficulty = Some 5,
          cs_retrievability = Some 1, cs_last_review = None, cs_reps = Some 0,
          cs_lapses = Some 0 \<rparr>"
  have first: "get (cs_state ?st) ''new'' = ''new'' \<or> get (cs_reps ?st) 0 = 0"
    by (simp add: get_def)
  have a: "0 \<le> real 0" "real 0 \<le> 3590000 * 86400" by simp_all
  have b: "0 \<le> (real \<circ> Suc) 0" "(real \<circ> Suc) 0 \<le> 3590000 * 86400" by simp_all
  show ?thesis
    unfolding schedule_card_first_default [where c = real, OF first a]
      schedule_card_first_default [where c = "real \<circ> Suc", OF first b]
    by simp
qed

text \<open>
  C8, amended. \<open>schedule_card\<close> has the arguments grade and prior state only and reads the
  system clock itself, at most three times. What it returns is determined by the scheduler's
  weights and desired retention, the grade, the prior state and the first three readings: two
  runs that agree on these return the same state or raise the same error, \<open>due_date\<close> and
  \<open>last_review\<close> included. In a returned state \<open>due_date\<close> is a reading plus the interval in
  days, and \<open>last_review\<close> is the next reading.
\<close>

theorem schedule_card_deterministic_in_clock:
  assumes "c 0 = c' 0" and "c 1 = c' 1" and "c 2 = c' 2"
  shows "map_sum id fst (schedule_card (FSRS_init params dr) g st c)
           = map_sum id fst (schedule_card (FSRS_init params dr) g st c')
       \<and> (\<forall>sch rest. schedule_card (FSRS_init params dr) g st c = Inr (sch, rest) \<longrightarrow>
             (due_date sch = c 0 + interval sch * 86400 \<and> last_review sch = c 1)
           \<or> (due_date sch = c 1 + interval sch * 86400 \<and> last_review sch = c 2))"
  using schedule_card_clock_agree [OF assms] schedule_card_reads_clock by blast

theorem schedule_card_deterministic_in_clock_witness:
  "real 0 = (real \<circ> min 2) 0 \<and> real 1 = (real \<circ> min 2) 1 \<and> real 2 = (real \<circ> min 2) 2
   \<and> map_sum id fst
     (schedule_card (FSRS_init None 0.9) 3
        \<lparr> cs_state = Some ''review'', cs_stability = Some 2, cs_difficulty = Some 5,
          cs_retrievability = Some 1, cs_last_review = Some 0, cs_reps = Some 1,
          cs_lapses = Some 0 \<rparr> real)
   = map_sum id fst
     (schedule_card (FSRS_init None 0.9) 3
        \<lparr> cs_state = Some ''review'', cs_stability = Some 2, cs_difficulty = Some 5,
          cs_retrievability = Some 1, cs_last_review = Some 0, cs_reps = Some 1,
          cs_lapses = Some 0 \<rparr> (real \<circ> min 2))"
proof -
  have h: "real 0 = (real \<circ> min 2) 0" "real 1 = (real \<circ> min 2) 1" "real 2 = (real \<circ> min 2) 2"
    by simp_all
  show ?thesis
    using schedule_card_deterministic_in_clock [OF h, of None "0.9" 3
        "\<lparr> cs_state = Some ''review'', cs_stability = Some 2, cs_difficulty = Some 5,
          cs_retrievability = Some 1, cs_last_review = Some 0, cs_reps = Some 1,
          cs_lapses = Some 0 \<rparr>"] h
    by blast
qed

text \<open>
  C9. On a first review (stage \<^verbatim>\<open>new\<close> or \<open>reps\<close> 0), for every grade in \<open>{1, 2, 3, 4}\<close>, unless
  the due date is out of range and \<open>schedule_card\<close> raises \<^verbatim>\<open>OverflowError\<close>, the retrievability
  of the returned state is the prior state's value, or 1 when the prior state has none: it
  is not recomputed and not clamped. The scheduler has its 21 weights and a desired
  retention other than 0; the repository's scheduler \<^verbatim>\<open>FSRS()\<close> does not raise while the clock
  reads at most 3590000 days after \<^verbatim>\<open>datetime.min\<close>.
\<close>

theorem first_review_keeps_retrievability:
  assumes cfg: "self = FSRS_init params dr" and len: "length (w self) = 21" and dr: "dr \<noteq> 0"
    and first: "get (cs_state st) ''new'' = ''new'' \<or> get (cs_reps st) 0 = 0"
    and g: "g \<in> {1, 2, 3, 4}"
  shows "(schedule_card self g st clk = Inl OverflowError
          \<or> (\<exists>sch clk'. schedule_card self g st clk = Inr (sch, clk')
                \<and> retrievability sch = get (cs_retrievability st) 1))
       \<and> (params = None \<and> dr = 0.9 \<and> 0 \<le> clk 0 \<and> clk 0 \<le> 3590000 * 86400 \<longrightarrow>
            schedule_card self g st clk \<noteq> Inl OverflowError)"
proof (rule conjI)
  from schedule_card_first [OF first cfg len dr, of g clk] obtain i where
    sc: "schedule_card self g st clk =
               ebind (ebind (timedelta_days i) (datetime_add (clk 0))) (\<lambda>due.
               Inr (\<lparr> state = (if g = 1 then ''learning'' else ''review''),
                      stability = (if g = 1 then w self ! 0 else if g = 2 then w self ! 1
                                   else if g = 3 then w self ! 2 else w self ! 3),
                      difficulty = max 1 (min 10 (w self ! 4 - w self ! 5 * (of_int g - 3))),
                      retrievability = get (cs_retrievability st) 1,
                      interval = i,
                      due_date = due,
                      reps = get (cs_reps st) 0 + 1,
                      lapses = (if g = 1 then get (cs_lapses st) 0 + 1 else get (cs_lapses st) 0),
                      last_review = clk 1 \<rparr>, \<lambda>n. clk (Suc (Suc n))))"
    by blast
  from due_date_cases [of i "clk 0"]
  show "schedule_card self g st clk = Inl OverflowError
          \<or> (\<exists>sch clk'. schedule_card self g st clk = Inr (sch, clk')
                \<and> retrievability sch = get (cs_retrievability st) 1)"
    unfolding sc by (auto simp add: ebind_Inr ebind_Inl)
next
  show "params = None \<and> dr = 0.9 \<and> 0 \<le> clk 0 \<and> clk 0 \<le> 3590000 * 86400 \<longrightarrow>
            schedule_card self g st clk \<noteq> Inl OverflowError"
  proof
    assume a: "params = None \<and> dr = 0.9 \<and> 0 \<le> clk 0 \<and> clk 0 \<le> 3590000 * 86400"
    then have "params = None" "dr = 0.9" by blast+
    then have self: "self = FSRS_init None 0.9" using cfg by (simp only:)
    from a have c0: "0 \<le> clk 0" "clk 0 \<le> 3590000 * 86400" by blast+
    from schedule_card_first_default [where c = clk and g = g, OF first c0]
    show "schedule_card self g st clk \<noteq> Inl OverflowError"
      unfolding self by (cases "schedule_card (FSRS_init None 0.9) g st clk") auto
  qed
qed

theorem first_review_keeps_retrievability_witness:
  "\<exists>sch clk'. schedule_card (FSRS_init None 0.9) 2
       \<lparr> cs_state = Some ''new'', cs_stability = Some 0, cs_difficulty = Some 5,
         cs_retrievability = Some 2.5, cs_last_review = None, cs_reps = Some 0,
         cs_lapses = Some 0 \<rparr> real = Inr (sch, clk')
     \<and> retrievability sch = 2.5"
proof -
  have l: "length (w (FSRS_init None 0.9)) = 21" by (simp add: w_FSRS_init length_DEFAULT_PARAMS)
  have g: "(2::int) \<in> {1, 2, 3, 4}" by simp
  have d: "(0.9::real) \<noteq> 0" by simp
  show ?thesis
    using first_review_keeps_retrievability [OF refl l d _ g, of
        "\<lparr> cs_state = Some ''new'', cs_stability = Some 0, cs_difficulty = Some 5,
           cs_retrievability = Some 2.5, cs_last_review = None, cs_reps = Some 0,
           cs_lapses = Some 0 \<rparr>" real]
    by (auto simp add: get_def)
qed

end
